theory Spec2Isabelle
  imports Main "HOL-Library.Word"
begin

unbundle bit_operations_syntax

section \<open>Data declarations of examples/common.h\<close>

type_synonym u8 = "8 word"
type_synonym u16 = "16 word"
type_synonym u32 = "32 word"

text \<open>
  Output is modelled by the calls that produce it: one \<open>Printf\<close> per call of
  \<^verbatim>\<open>printf\<close>, holding the format string of the source and the arguments after C's
  default argument promotions (every integer argument of this file arrives as an
  \<^verbatim>\<open>int\<close> or \<^verbatim>\<open>unsigned int\<close>; a \<^verbatim>\<open>%s\<close> argument is a string).
\<close>

datatype printf_arg = Arg_int int | Arg_str string

datatype printf_call = Printf string "printf_arg list"

text \<open>
  Where C gives the source no meaning, the model has a value for it: a read behind
  the end of the buffer that holds an event, a write behind the end of a fixed-size
  array, and a \<^verbatim>\<open>switch\<close> on a value that stands on two of its \<^verbatim>\<open>case\<close> labels.
\<close>

datatype fault = Read_past_buffer | Write_past_buffer | Duplicate_case_label

text \<open>\<^verbatim>\<open>enum usb_raw_event_type\<close> (lines 61-69). C enumerators are of type \<^verbatim>\<open>int\<close>.\<close>

named_theorems usb_consts \<open>values of the named constants\<close>



text \<open>
  Modelled from the spec: \<^verbatim>\<open>struct usb_ctrlrequest\<close> is declared in
  \<^verbatim>\<open>linux/usb/ch9.h\<close>, which is not part of the repository. The spec gives
  its shape (section 4.2): 8 bytes, \<^verbatim>\<open>bRequestType, bRequest, wValue, wIndex, wLength\<close>,
  the first two of one byte, the others of 16 bits, stored little-endian. The source
  reads the 16-bit fields without conversion, so the model is that of a
  little-endian host.
\<close>

record usb_ctrlrequest =
  bRequestType :: u8
  bRequest :: u8
  wValue :: u16
  wIndex :: u16
  wLength :: u16



subsection \<open>Constants of the Linux headers\<close>

text \<open>
  Modelled from the spec: the macros below come from \<^verbatim>\<open>linux/usb/ch9.h\<close> and
  \<^verbatim>\<open>linux/hid.h\<close>, which common.h includes and the repository does not
  contain. The spec fixes the bit layout of \<^verbatim>\<open>bRequestType\<close> (bit 7 direction, bits
  6-5 request class) and names the requests; the numbers are those of the USB 2.0 and
  HID 1.11 specifications, which the headers copy. They are C \<^verbatim>\<open>int\<close> constants.
\<close>

definition USB_DIR_IN :: int where [usb_consts]: "USB_DIR_IN = 0x80"
definition USB_TYPE_MASK :: int where [usb_consts]: "USB_TYPE_MASK = 0x60"
definition USB_TYPE_STANDARD :: int where [usb_consts]: "USB_TYPE_STANDARD = 0x00"
definition USB_TYPE_CLASS :: int where [usb_consts]: "USB_TYPE_CLASS = 0x20"
definition USB_TYPE_VENDOR :: int where [usb_consts]: "USB_TYPE_VENDOR = 0x40"

definition USB_REQ_GET_STATUS :: int where [usb_consts]: "USB_REQ_GET_STATUS = 0x00"
definition USB_REQ_CLEAR_FEATURE :: int where [usb_consts]: "USB_REQ_CLEAR_FEATURE = 0x01"
definition USB_REQ_SET_FEATURE :: int where [usb_consts]: "USB_REQ_SET_FEATURE = 0x03"
definition USB_REQ_GET_DESCRIPTOR :: int where [usb_consts]: "USB_REQ_GET_DESCRIPTOR = 0x06"
definition USB_REQ_GET_CONFIGURATION :: int where [usb_consts]: "USB_REQ_GET_CONFIGURATION = 0x08"
definition USB_REQ_SET_CONFIGURATION :: int where [usb_consts]: "USB_REQ_SET_CONFIGURATION = 0x09"
definition USB_REQ_GET_INTERFACE :: int where [usb_consts]: "USB_REQ_GET_INTERFACE = 0x0A"
definition USB_REQ_SET_INTERFACE :: int where [usb_consts]: "USB_REQ_SET_INTERFACE = 0x0B"

definition USB_DT_DEVICE :: int where [usb_consts]: "USB_DT_DEVICE = 0x01"
definition USB_DT_CONFIG :: int where [usb_consts]: "USB_DT_CONFIG = 0x02"
definition USB_DT_STRING :: int where [usb_consts]: "USB_DT_STRING = 0x03"
definition USB_DT_INTERFACE :: int where [usb_consts]: "USB_DT_INTERFACE = 0x04"
definition USB_DT_ENDPOINT :: int where [usb_consts]: "USB_DT_ENDPOINT = 0x05"
definition USB_DT_DEVICE_QUALIFIER :: int where [usb_consts]: "USB_DT_DEVICE_QUALIFIER = 0x06"
definition USB_DT_OTHER_SPEED_CONFIG :: int where [usb_consts]: "USB_DT_OTHER_SPEED_CONFIG = 0x07"
definition USB_DT_INTERFACE_POWER :: int where [usb_consts]: "USB_DT_INTERFACE_POWER = 0x08"
definition USB_DT_OTG :: int where [usb_consts]: "USB_DT_OTG = 0x09"
definition USB_DT_DEBUG :: int where [usb_consts]: "USB_DT_DEBUG = 0x0a"
definition USB_DT_INTERFACE_ASSOCIATION :: int where [usb_consts]: "USB_DT_INTERFACE_ASSOCIATION = 0x0b"
definition USB_DT_SECURITY :: int where [usb_consts]: "USB_DT_SECURITY = 0x0c"
definition USB_DT_KEY :: int where [usb_consts]: "USB_DT_KEY = 0x0d"
definition USB_DT_ENCRYPTION_TYPE :: int where [usb_consts]: "USB_DT_ENCRYPTION_TYPE = 0x0e"
definition USB_DT_BOS :: int where [usb_consts]: "USB_DT_BOS = 0x0f"
definition USB_DT_DEVICE_CAPABILITY :: int where [usb_consts]: "USB_DT_DEVICE_CAPABILITY = 0x10"
definition USB_DT_WIRELESS_ENDPOINT_COMP :: int where [usb_consts]: "USB_DT_WIRELESS_ENDPOINT_COMP = 0x11"
definition USB_DT_PIPE_USAGE :: int where [usb_consts]: "USB_DT_PIPE_USAGE = 0x24"
definition USB_DT_SS_ENDPOINT_COMP :: int where [usb_consts]: "USB_DT_SS_ENDPOINT_COMP = 0x30"

definition HID_DT_HID :: int where [usb_consts]: "HID_DT_HID = 0x21"
definition HID_DT_REPORT :: int where [usb_consts]: "HID_DT_REPORT = 0x22"
definition HID_DT_PHYSICAL :: int where [usb_consts]: "HID_DT_PHYSICAL = 0x23"

definition HID_REQ_GET_REPORT :: int where [usb_consts]: "HID_REQ_GET_REPORT = 0x01"
definition HID_REQ_GET_IDLE :: int where [usb_consts]: "HID_REQ_GET_IDLE = 0x02"
definition HID_REQ_GET_PROTOCOL :: int where [usb_consts]: "HID_REQ_GET_PROTOCOL = 0x03"
definition HID_REQ_SET_REPORT :: int where [usb_consts]: "HID_REQ_SET_REPORT = 0x09"
definition HID_REQ_SET_IDLE :: int where [usb_consts]: "HID_REQ_SET_IDLE = 0x0A"
definition HID_REQ_SET_PROTOCOL :: int where [usb_consts]: "HID_REQ_SET_PROTOCOL = 0x0B"

text \<open>The printer class requests that common.h defines itself (lines 272-274).\<close>

definition GET_DEVICE_ID :: int where [usb_consts]: "GET_DEVICE_ID = 0"
definition GET_PORT_STATUS :: int where [usb_consts]: "GET_PORT_STATUS = 1"
definition SOFT_RESET :: int where [usb_consts]: "SOFT_RESET = 2"

section \<open>Logging of control requests and events\<close>

text \<open>
  \<^verbatim>\<open>log_control_request\<close> (lines 276-440) is three statements in a row: the
  \<^verbatim>\<open>printf\<close> of the raw fields, the \<^verbatim>\<open>switch\<close> that names the request type, and the
  \<^verbatim>\<open>switch\<close> that names the request. Each is one definition, and the innermost
  \<^verbatim>\<open>switch\<close> over the descriptor type is a fourth.

  A \<^verbatim>\<open>switch\<close> jumps to the one label that equals its value, on the promoted
  \<^verbatim>\<open>int\<close> that C compares, or to \<^verbatim>\<open>default\<close> when no label does. Where the
  labels are pairwise different this is an \<open>if\<close> cascade over them. The labels of
  the \<^verbatim>\<open>switch\<close> over the class requests (lines 402-434) are not: \<^verbatim>\<open>GET_PORT_STATUS\<close>
  and \<^verbatim>\<open>HID_REQ_GET_REPORT\<close> are both 1, \<^verbatim>\<open>SOFT_RESET\<close> and \<^verbatim>\<open>HID_REQ_GET_IDLE\<close>
  are both 2. C does not allow that and nothing in the source says which of the two
  statements runs, so that \<^verbatim>\<open>switch\<close> is kept as the table of its labels and a
  value that stands on two of them has no outcome. The \<^verbatim>\<open>default\<close> label stands
  twice as well (lines 430-431), both times in front of the same statement.
\<close>

definition log_control_request_fields :: "usb_ctrlrequest \<Rightarrow> printf_call" where
  "log_control_request_fields ctrl =
     Printf ''  bRequestType: 0x%x (%s), bRequest: 0x%x, wValue: 0x%x, wIndex: 0x%x, wLength: %d\<newline>''
       [Arg_int (uint (bRequestType ctrl)),
        Arg_str (if uint (bRequestType ctrl) AND USB_DIR_IN \<noteq> 0 then ''IN'' else ''OUT''),
        Arg_int (uint (bRequest ctrl)), Arg_int (uint (wValue ctrl)),
        Arg_int (uint (wIndex ctrl)), Arg_int (uint (wLength ctrl))]"

definition log_control_request_type :: "usb_ctrlrequest \<Rightarrow> printf_call" where
  "log_control_request_type ctrl =
     (let t = uint (bRequestType ctrl) AND USB_TYPE_MASK in
      if t = USB_TYPE_STANDARD then Printf ''  type = USB_TYPE_STANDARD\<newline>'' []
      else if t = USB_TYPE_CLASS then Printf ''  type = USB_TYPE_CLASS\<newline>'' []
      else if t = USB_TYPE_VENDOR then Printf ''  type = USB_TYPE_VENDOR\<newline>'' []
      else Printf ''  type = unknown = %d\<newline>'' [Arg_int (uint (bRequestType ctrl))])"

text \<open>
  The \<^verbatim>\<open>switch (ctrl->wValue >> 8)\<close> of lines 302-373. The three HID cases end in
  \<^verbatim>\<open>return\<close> where the others end in \<^verbatim>\<open>break\<close>; nothing follows either switch in
  the function, so both leave it with the same output.
\<close>

definition log_descriptor_type :: "usb_ctrlrequest \<Rightarrow> printf_call" where
  "log_descriptor_type ctrl =
     (let d = drop_bit 8 (uint (wValue ctrl)) in
      if d = USB_DT_DEVICE then Printf ''  desc = USB_DT_DEVICE\<newline>'' []
      else if d = USB_DT_CONFIG then Printf ''  desc = USB_DT_CONFIG\<newline>'' []
      else if d = USB_DT_STRING then Printf ''  desc = USB_DT_STRING\<newline>'' []
      else if d = USB_DT_INTERFACE then Printf ''  desc = USB_DT_INTERFACE\<newline>'' []
      else if d = USB_DT_ENDPOINT then Printf ''  desc = USB_DT_ENDPOINT\<newline>'' []
      else if d = USB_DT_DEVICE_QUALIFIER then Printf ''  desc = USB_DT_DEVICE_QUALIFIER\<newline>'' []
      else if d = USB_DT_OTHER_SPEED_CONFIG then Printf ''  desc = USB_DT_OTHER_SPEED_CONFIG\<newline>'' []
      else if d = USB_DT_INTERFACE_POWER then Printf ''  desc = USB_DT_INTERFACE_POWER\<newline>'' []
      else if d = USB_DT_OTG then Printf ''  desc = USB_DT_OTG\<newline>'' []
      else if d = USB_DT_DEBUG then Printf ''  desc = USB_DT_DEBUG\<newline>'' []
      else if d = USB_DT_INTERFACE_ASSOCIATION then Printf ''  desc = USB_DT_INTERFACE_ASSOCIATION\<newline>'' []
      else if d = USB_DT_SECURITY then Printf ''  desc = USB_DT_SECURITY\<newline>'' []
      else if d = USB_DT_KEY then Printf ''  desc = USB_DT_KEY\<newline>'' []
      else if d = USB_DT_ENCRYPTION_TYPE then Printf ''  desc = USB_DT_ENCRYPTION_TYPE\<newline>'' []
      else if d = USB_DT_BOS then Printf ''  desc = USB_DT_BOS\<newline>'' []
      else if d = USB_DT_DEVICE_CAPABILITY then Printf ''  desc = USB_DT_DEVICE_CAPABILITY\<newline>'' []
      else if d = USB_DT_WIRELESS_ENDPOINT_COMP then Printf ''  desc = USB_DT_WIRELESS_ENDPOINT_COMP\<newline>'' []
      else if d = USB_DT_PIPE_USAGE then Printf ''  desc = USB_DT_PIPE_USAGE\<newline>'' []
      else if d = USB_DT_SS_ENDPOINT_COMP then Printf ''  desc = USB_DT_SS_ENDPOINT_COMP\<newline>'' []
      else if d = HID_DT_HID then Printf ''  descriptor = HID_DT_HID\<newline>'' []
      else if d = HID_DT_REPORT then Printf ''  descriptor = HID_DT_REPORT\<newline>'' []
      else if d = HID_DT_PHYSICAL then Printf ''  descriptor = HID_DT_PHYSICAL\<newline>'' []
      else Printf ''  desc = unknown = 0x%x\<newline>'' [Arg_int (drop_bit 8 (uint (wValue ctrl)))])"

text \<open>
  A \<^verbatim>\<open>switch\<close> given by the table of its \<^verbatim>\<open>case\<close> labels, each with the output of
  the statements behind it, and by the output behind \<^verbatim>\<open>default\<close>.
\<close>

definition switch_on :: "int \<Rightarrow> (int \<times> 'a) list \<Rightarrow> 'a \<Rightarrow> fault + 'a" where
  "switch_on v labels dflt =
     (case filter (\<lambda>(l, body). l = v) labels of
        [] \<Rightarrow> Inr dflt
      | [(l, body)] \<Rightarrow> Inr body
      | (l, body) # second # rest \<Rightarrow> Inl Duplicate_case_label)"

text \<open>The \<^verbatim>\<open>case\<close> labels of lines 403-429, in the order of the source.\<close>

definition class_request_labels :: "(int \<times> printf_call list) list" where
  "class_request_labels =
     [(GET_DEVICE_ID, [Printf ''  req = GET_DEVICE_ID\<newline>'' []]),
      (GET_PORT_STATUS, [Printf ''  req = GET_PORT_STATUS\<newline>'' []]),
      (SOFT_RESET, [Printf ''  req = SOFT_RESET\<newline>'' []]),
      (HID_REQ_GET_REPORT, [Printf ''  req = HID_REQ_GET_REPORT\<newline>'' []]),
      (HID_REQ_GET_IDLE, [Printf ''  req = HID_REQ_GET_IDLE\<newline>'' []]),
      (HID_REQ_GET_PROTOCOL, [Printf ''  req = HID_REQ_GET_PROTOCOL\<newline>'' []]),
      (HID_REQ_SET_REPORT, [Printf ''  req = HID_REQ_SET_REPORT\<newline>'' []]),
      (HID_REQ_SET_IDLE, [Printf ''  req = HID_REQ_SET_IDLE\<newline>'' []]),
      (HID_REQ_SET_PROTOCOL, [Printf ''  req = HID_REQ_SET_PROTOCOL\<newline>'' []])]"

text \<open>The second \<^verbatim>\<open>switch (ctrl->bRequestType & USB_TYPE_MASK)\<close>, lines 297-439.\<close>

definition log_control_request_req :: "usb_ctrlrequest \<Rightarrow> fault + printf_call list" where
  "log_control_request_req ctrl =
     (let t = uint (bRequestType ctrl) AND USB_TYPE_MASK; r = uint (bRequest ctrl) in
      if t = USB_TYPE_STANDARD then
        Inr (if r = USB_REQ_GET_DESCRIPTOR then
               [Printf ''  req = USB_REQ_GET_DESCRIPTOR\<newline>'' [], log_descriptor_type ctrl]
             else if r = USB_REQ_SET_CONFIGURATION then [Printf ''  req = USB_REQ_SET_CONFIGURATION\<newline>'' []]
             else if r = USB_REQ_GET_CONFIGURATION then [Printf ''  req = USB_REQ_GET_CONFIGURATION\<newline>'' []]
             else if r = USB_REQ_SET_INTERFACE then [Printf ''  req = USB_REQ_SET_INTERFACE\<newline>'' []]
             else if r = USB_REQ_GET_INTERFACE then [Printf ''  req = USB_REQ_GET_INTERFACE\<newline>'' []]
             else if r = USB_REQ_GET_STATUS then [Printf ''  req = USB_REQ_GET_STATUS\<newline>'' []]
             else if r = USB_REQ_CLEAR_FEATURE then [Printf ''  req = USB_REQ_CLEAR_FEATURE\<newline>'' []]
             else if r = USB_REQ_SET_FEATURE then [Printf ''  req = USB_REQ_SET_FEATURE\<newline>'' []]
             else [Printf ''  req = unknown = 0x%x\<newline>'' [Arg_int (uint (bRequest ctrl))]])
      else if t = USB_TYPE_CLASS then
        switch_on r class_request_labels
          [Printf ''  req = unknown = 0x%x\<newline>'' [Arg_int (uint (bRequest ctrl))]]
      else Inr [Printf ''  req = unknown = 0x%x\<newline>'' [Arg_int (uint (bRequest ctrl))]])"

text \<open>
  The three statements in a row. The two lines of the first two are the output of
  the function only when the third has one.
\<close>

definition log_control_request :: "usb_ctrlrequest \<Rightarrow> fault + printf_call list" where
  "log_control_request ctrl =
     (case log_control_request_req ctrl of
        Inl f \<Rightarrow> Inl f
      | Inr req \<Rightarrow>
          Inr (log_control_request_fields ctrl # log_control_request_type ctrl # req))"



section \<open>The transport binding\<close>

text \<open>
  The wrappers of lines 133-268 call the kernel and nothing else. The kernel is a
  parameter of the model: a pair of functions over a state \<open>'w\<close> of everything the
  calls can read or change (the gadget, \<^verbatim>\<open>errno\<close>, and the buffers of the caller
  that the kernel fills through the pointers it is given). Each call returns the
  \<^verbatim>\<open>int\<close> result of the C call and the next state.
\<close>

text \<open>The request numbers of lines 114-129; only their identity matters here.\<close>

datatype ioctl_request =
    USB_RAW_IOCTL_INIT
  | USB_RAW_IOCTL_RUN
  | USB_RAW_IOCTL_EVENT_FETCH
  | USB_RAW_IOCTL_EP0_WRITE
  | USB_RAW_IOCTL_EP0_READ
  | USB_RAW_IOCTL_EP_ENABLE
  | USB_RAW_IOCTL_EP_DISABLE
  | USB_RAW_IOCTL_EP_WRITE
  | USB_RAW_IOCTL_EP_READ
  | USB_RAW_IOCTL_CONFIGURE
  | USB_RAW_IOCTL_VBUS_DRAW
  | USB_RAW_IOCTL_EPS_INFO
  | USB_RAW_IOCTL_EP0_STALL
  | USB_RAW_IOCTL_EP_SET_HALT
  | USB_RAW_IOCTL_EP_CLEAR_HALT
  | USB_RAW_IOCTL_EP_SET_WEDGE

definition UDC_NAME_LENGTH_MAX :: nat where
  "UDC_NAME_LENGTH_MAX = 128"

text \<open>
  \<^verbatim>\<open>struct usb_raw_init\<close> (lines 55-59). A name array is a function from the index
  to the byte; only the indices below \<open>UDC_NAME_LENGTH_MAX\<close> belong to it.
\<close>

record usb_raw_init_arg =
  driver_name :: "nat \<Rightarrow> char"
  device_name :: "nat \<Rightarrow> char"
  speed :: u8

text \<open>
  The third argument of \<^verbatim>\<open>ioctl\<close>: the structure built by \<^verbatim>\<open>usb_raw_init\<close>, a plain
  integer, or the address of an object of the caller.
\<close>

datatype ioctl_arg = Ioctl_init usb_raw_init_arg | Ioctl_value int | Ioctl_pointer nat

datatype open_flags = O_RDWR

record 'w syscalls =
  sys_open :: "'w \<Rightarrow> string \<Rightarrow> open_flags \<Rightarrow> int \<times> 'w"
  sys_ioctl :: "'w \<Rightarrow> int \<Rightarrow> ioctl_request \<Rightarrow> ioctl_arg \<Rightarrow> int \<times> 'w"

text \<open>
  The state of the process: the state behind the kernel calls, and what was written
  to the standard error stream. \<^verbatim>\<open>perror(s)\<close> writes one line that starts with \<open>s\<close>;
  the text of \<^verbatim>\<open>errno\<close> that the C library adds behind it is not modelled.
\<close>

record 'w proc =
  world :: 'w
  stderr :: "string list"

definition perror :: "string \<Rightarrow> 'w proc \<Rightarrow> 'w proc" where
  "perror s st = st\<lparr>stderr := stderr st @ [s]\<rparr>"

text \<open>
  How a wrapper ends: it returns a value, the process ends in \<^verbatim>\<open>exit\<close> with a
  status, or the behaviour is undefined.
\<close>

datatype 'a outcome = Returned 'a | Exited int | Undefined fault

definition EXIT_FAILURE :: int where
  "EXIT_FAILURE = 1"

definition usb_raw_open :: "'w syscalls \<Rightarrow> 'w proc \<Rightarrow> int outcome \<times> 'w proc" where
  "usb_raw_open k st =
     (case sys_open k (world st) ''/dev/raw-gadget'' O_RDWR of
        (fd, w) \<Rightarrow>
          if fd < 0 then (Exited EXIT_FAILURE, perror ''open()'' (st\<lparr>world := w\<rparr>))
          else (Returned fd, st\<lparr>world := w\<rparr>))"

text \<open>
  \<^verbatim>\<open>strcpy\<close> into an array of \<open>cap\<close> bytes. The source is the memory behind the
  pointer: the string ends before its first NUL, or at the end of the list when it
  holds none. The characters and the terminating NUL are written; the bytes of the
  array behind them keep what they held. A string that needs more than \<open>cap\<close>
  bytes is written past the end of the array.
\<close>

definition c_string :: "string \<Rightarrow> string" where
  "c_string s = takeWhile (\<lambda>c. c \<noteq> CHR 0x00) s"

definition strcpy :: "nat \<Rightarrow> (nat \<Rightarrow> char) \<Rightarrow> string \<Rightarrow> fault + (nat \<Rightarrow> char)" where
  "strcpy cap dst src =
     (let s = c_string src in
      if length s + 1 \<le> cap then
        Inr (\<lambda>i. if i < length s then s ! i else if i = length s then CHR 0x00 else dst i)
      else Inl Write_past_buffer)"

text \<open>The string that a reader finds in an array of \<open>cap\<close> bytes.\<close>

definition array_string :: "nat \<Rightarrow> (nat \<Rightarrow> char) \<Rightarrow> string" where
  "array_string cap buf = c_string (map buf [0..<cap])"

text \<open>
  Modelled from the spec: \<^verbatim>\<open>enum usb_device_speed\<close> is declared in
  \<^verbatim>\<open>linux/usb/ch9.h\<close>, not in the repository; the spec only says that initialize
  takes a speed. The enumerators and their values 0 to 6 are those of the header.
\<close>

datatype usb_device_speed =
    USB_SPEED_UNKNOWN
  | USB_SPEED_LOW
  | USB_SPEED_FULL
  | USB_SPEED_HIGH
  | USB_SPEED_WIRELESS
  | USB_SPEED_SUPER
  | USB_SPEED_SUPER_PLUS

fun usb_device_speed_value :: "usb_device_speed \<Rightarrow> int" where
  "usb_device_speed_value USB_SPEED_UNKNOWN = 0"
| "usb_device_speed_value USB_SPEED_LOW = 1"
| "usb_device_speed_value USB_SPEED_FULL = 2"
| "usb_device_speed_value USB_SPEED_HIGH = 3"
| "usb_device_speed_value USB_SPEED_WIRELESS = 4"
| "usb_device_speed_value USB_SPEED_SUPER = 5"
| "usb_device_speed_value USB_SPEED_SUPER_PLUS = 6"

text \<open>
  \<^verbatim>\<open>usb_raw_init\<close> (lines 142-153) in two steps. Lines 144-147 fill the local
  \<^verbatim>\<open>arg\<close>, which is not initialised: its first contents are the parameter \<open>arg\<close>.
  The assignment to the \<^verbatim>\<open>__u8\<close> field converts the speed to 8 bits. Lines 148-152
  hand the structure to the kernel.
\<close>

definition usb_raw_init_fill ::
  "usb_device_speed \<Rightarrow> string \<Rightarrow> string \<Rightarrow> usb_raw_init_arg \<Rightarrow> fault + usb_raw_init_arg" where
  "usb_raw_init_fill speed_in driver device arg =
     (case strcpy UDC_NAME_LENGTH_MAX (driver_name arg) driver of
        Inl f \<Rightarrow> Inl f
      | Inr dn \<Rightarrow>
          (case strcpy UDC_NAME_LENGTH_MAX (device_name arg) device of
             Inl f \<Rightarrow> Inl f
           | Inr dv \<Rightarrow>
               Inr (arg\<lparr>driver_name := dn, device_name := dv,
                        speed := word_of_int (usb_device_speed_value speed_in)\<rparr>)))"

definition usb_raw_init ::
  "'w syscalls \<Rightarrow> int \<Rightarrow> usb_device_speed \<Rightarrow> string \<Rightarrow> string \<Rightarrow> usb_raw_init_arg \<Rightarrow>
   'w proc \<Rightarrow> unit outcome \<times> 'w proc" where
  "usb_raw_init k fd speed_in driver device arg st =
     (case usb_raw_init_fill speed_in driver device arg of
        Inl f \<Rightarrow> (Undefined f, st)
      | Inr a \<Rightarrow>
          (case sys_ioctl k (world st) fd USB_RAW_IOCTL_INIT (Ioctl_init a) of
             (rv, w) \<Rightarrow>
               if rv < 0 then
                 (Exited EXIT_FAILURE, perror ''ioctl(USB_RAW_IOCTL_INIT)'' (st\<lparr>world := w\<rparr>))
               else (Returned (), st\<lparr>world := w\<rparr>)))"

definition usb_raw_run :: "'w syscalls \<Rightarrow> int \<Rightarrow> 'w proc \<Rightarrow> unit outcome \<times> 'w proc" where
  "usb_raw_run k fd st =
     (case sys_ioctl k (world st) fd USB_RAW_IOCTL_RUN (Ioctl_value 0) of
        (rv, w) \<Rightarrow>
          if rv < 0 then
            (Exited EXIT_FAILURE, perror ''ioctl(USB_RAW_IOCTL_RUN)'' (st\<lparr>world := w\<rparr>))
          else (Returned (), st\<lparr>world := w\<rparr>))"

definition usb_raw_event_fetch ::
  "'w syscalls \<Rightarrow> int \<Rightarrow> nat \<Rightarrow> 'w proc \<Rightarrow> unit outcome \<times> 'w proc" where
  "usb_raw_event_fetch k fd event st =
     (case sys_ioctl k (world st) fd USB_RAW_IOCTL_EVENT_FETCH (Ioctl_pointer event) of
        (rv, w) \<Rightarrow>
          if rv < 0 then
            (Exited EXIT_FAILURE, perror ''ioctl(USB_RAW_IOCTL_EVENT_FETCH)'' (st\<lparr>world := w\<rparr>))
          else (Returned (), st\<lparr>world := w\<rparr>))"

definition usb_raw_ep0_read ::
  "'w syscalls \<Rightarrow> int \<Rightarrow> nat \<Rightarrow> 'w proc \<Rightarrow> int outcome \<times> 'w proc" where
  "usb_raw_ep0_read k fd io st =
     (case sys_ioctl k (world st) fd USB_RAW_IOCTL_EP0_READ (Ioctl_pointer io) of
        (rv, w) \<Rightarrow>
          if rv < 0 then
            (Exited EXIT_FAILURE, perror ''ioctl(USB_RAW_IOCTL_EP0_READ)'' (st\<lparr>world := w\<rparr>))
          else (Returned rv, st\<lparr>world := w\<rparr>))"

definition usb_raw_ep0_write ::
  "'w syscalls \<Rightarrow> int \<Rightarrow> nat \<Rightarrow> 'w proc \<Rightarrow> int outcome \<times> 'w proc" where
  "usb_raw_ep0_write k fd io st =
     (case sys_ioctl k (world st) fd USB_RAW_IOCTL_EP0_WRITE (Ioctl_pointer io) of
        (rv, w) \<Rightarrow>
          if rv < 0 then
            (Exited EXIT_FAILURE, perror ''ioctl(USB_RAW_IOCTL_EP0_WRITE)'' (st\<lparr>world := w\<rparr>))
          else (Returned rv, st\<lparr>world := w\<rparr>))"

definition usb_raw_ep_enable ::
  "'w syscalls \<Rightarrow> int \<Rightarrow> nat \<Rightarrow> 'w proc \<Rightarrow> int outcome \<times> 'w proc" where
  "usb_raw_ep_enable k fd desc st =
     (case sys_ioctl k (world st) fd USB_RAW_IOCTL_EP_ENABLE (Ioctl_pointer desc) of
        (rv, w) \<Rightarrow>
          if rv < 0 then
            (Exited EXIT_FAILURE, perror ''ioctl(USB_RAW_IOCTL_EP_ENABLE)'' (st\<lparr>world := w\<rparr>))
          else (Returned rv, st\<lparr>world := w\<rparr>))"

definition usb_raw_ep_read ::
  "'w syscalls \<Rightarrow> int \<Rightarrow> nat \<Rightarrow> 'w proc \<Rightarrow> int outcome \<times> 'w proc" where
  "usb_raw_ep_read k fd io st =
     (case sys_ioctl k (world st) fd USB_RAW_IOCTL_EP_READ (Ioctl_pointer io) of
        (rv, w) \<Rightarrow>
          if rv < 0 then
            (Exited EXIT_FAILURE, perror ''ioctl(USB_RAW_IOCTL_EP_READ)'' (st\<lparr>world := w\<rparr>))
          else (Returned rv, st\<lparr>world := w\<rparr>))"

definition usb_raw_ep_disable ::
  "'w syscalls \<Rightarrow> int \<Rightarrow> int \<Rightarrow> 'w proc \<Rightarrow> int outcome \<times> 'w proc" where
  "usb_raw_ep_disable k fd ep st =
     (case sys_ioctl k (world st) fd USB_RAW_IOCTL_EP_DISABLE (Ioctl_value ep) of
        (rv, w) \<Rightarrow>
          if rv < 0 then
            (Exited EXIT_FAILURE, perror ''ioctl(USB_RAW_IOCTL_EP_DISABLE)'' (st\<lparr>world := w\<rparr>))
          else (Returned rv, st\<lparr>world := w\<rparr>))"

text \<open>Lines 216-218: the result of the call goes back as it is.\<close>

definition usb_raw_ep_write_may_fail ::
  "'w syscalls \<Rightarrow> int \<Rightarrow> nat \<Rightarrow> 'w proc \<Rightarrow> int outcome \<times> 'w proc" where
  "usb_raw_ep_write_may_fail k fd io st =
     (case sys_ioctl k (world st) fd USB_RAW_IOCTL_EP_WRITE (Ioctl_pointer io) of
        (rv, w) \<Rightarrow> (Returned rv, st\<lparr>world := w\<rparr>))"

definition usb_raw_ep_write ::
  "'w syscalls \<Rightarrow> int \<Rightarrow> nat \<Rightarrow> 'w proc \<Rightarrow> int outcome \<times> 'w proc" where
  "usb_raw_ep_write k fd io st =
     (case sys_ioctl k (world st) fd USB_RAW_IOCTL_EP_WRITE (Ioctl_pointer io) of
        (rv, w) \<Rightarrow>
          if rv < 0 then
            (Exited EXIT_FAILURE, perror ''ioctl(USB_RAW_IOCTL_EP_WRITE)'' (st\<lparr>world := w\<rparr>))
          else (Returned rv, st\<lparr>world := w\<rparr>))"

text \<open>The message of line 232 says \<^verbatim>\<open>CONFIGURED\<close> where the request is \<^verbatim>\<open>CONFIGURE\<close>.\<close>

definition usb_raw_configure :: "'w syscalls \<Rightarrow> int \<Rightarrow> 'w proc \<Rightarrow> unit outcome \<times> 'w proc" where
  "usb_raw_configure k fd st =
     (case sys_ioctl k (world st) fd USB_RAW_IOCTL_CONFIGURE (Ioctl_value 0) of
        (rv, w) \<Rightarrow>
          if rv < 0 then
            (Exited EXIT_FAILURE, perror ''ioctl(USB_RAW_IOCTL_CONFIGURED)'' (st\<lparr>world := w\<rparr>))
          else (Returned (), st\<lparr>world := w\<rparr>))"

definition usb_raw_vbus_draw ::
  "'w syscalls \<Rightarrow> int \<Rightarrow> u32 \<Rightarrow> 'w proc \<Rightarrow> unit outcome \<times> 'w proc" where
  "usb_raw_vbus_draw k fd power_arg st =
     (case sys_ioctl k (world st) fd USB_RAW_IOCTL_VBUS_DRAW (Ioctl_value (uint power_arg)) of
        (rv, w) \<Rightarrow>
          if rv < 0 then
            (Exited EXIT_FAILURE, perror ''ioctl(USB_RAW_IOCTL_VBUS_DRAW)'' (st\<lparr>world := w\<rparr>))
          else (Returned (), st\<lparr>world := w\<rparr>))"

definition usb_raw_eps_info ::
  "'w syscalls \<Rightarrow> int \<Rightarrow> nat \<Rightarrow> 'w proc \<Rightarrow> int outcome \<times> 'w proc" where
  "usb_raw_eps_info k fd info st =
     (case sys_ioctl k (world st) fd USB_RAW_IOCTL_EPS_INFO (Ioctl_pointer info) of
        (rv, w) \<Rightarrow>
          if rv < 0 then
            (Exited EXIT_FAILURE, perror ''ioctl(USB_RAW_IOCTL_EPS_INFO)'' (st\<lparr>world := w\<rparr>))
          else (Returned rv, st\<lparr>world := w\<rparr>))"

definition usb_raw_ep0_stall :: "'w syscalls \<Rightarrow> int \<Rightarrow> 'w proc \<Rightarrow> unit outcome \<times> 'w proc" where
  "usb_raw_ep0_stall k fd st =
     (case sys_ioctl k (world st) fd USB_RAW_IOCTL_EP0_STALL (Ioctl_value 0) of
        (rv, w) \<Rightarrow>
          if rv < 0 then
            (Exited EXIT_FAILURE, perror ''ioctl(USB_RAW_IOCTL_EP0_STALL)'' (st\<lparr>world := w\<rparr>))
          else (Returned (), st\<lparr>world := w\<rparr>))"

definition usb_raw_ep_set_halt ::
  "'w syscalls \<Rightarrow> int \<Rightarrow> int \<Rightarrow> 'w proc \<Rightarrow> unit outcome \<times> 'w proc" where
  "usb_raw_ep_set_halt k fd ep st =
     (case sys_ioctl k (world st) fd USB_RAW_IOCTL_EP_SET_HALT (Ioctl_value ep) of
        (rv, w) \<Rightarrow>
          if rv < 0 then
            (Exited EXIT_FAILURE, perror ''ioctl(USB_RAW_IOCTL_EP_SET_HALT)'' (st\<lparr>world := w\<rparr>))
          else (Returned (), st\<lparr>world := w\<rparr>))"

text \<open>
  The failure policy of a wrapper, as a predicate on what it did: \<open>call\<close> is the
  result of its kernel call, \<open>ret\<close> what it makes of a result that is not negative,
  \<open>st\<close> the state before and \<open>res\<close> the outcome and state after. On a negative
  result the process exits with \<open>EXIT_FAILURE\<close> and the only trace beyond the kernel
  call is the diagnostic; otherwise the value is returned and the state is the one
  the kernel call left.
\<close>

definition fatal_on_failure ::
  "string \<Rightarrow> int \<times> 'w \<Rightarrow> (int \<Rightarrow> 'a) \<Rightarrow> 'w proc \<Rightarrow> 'a outcome \<times> 'w proc \<Rightarrow> bool" where
  "fatal_on_failure diag call ret st res =
     (case call of
        (rv, w) \<Rightarrow>
          if rv < 0 then
            res = (Exited EXIT_FAILURE, st\<lparr>world := w, stderr := stderr st @ [diag]\<rparr>)
          else res = (Returned (ret rv), st\<lparr>world := w\<rparr>))"

section \<open>Bits of a request type\<close>









lemma class_request_outcome:
  "uint (bRequestType ctrl) AND USB_TYPE_MASK = USB_TYPE_CLASS \<Longrightarrow>
   log_control_request_req ctrl =
     (if uint (bRequest ctrl) = 1 \<or> uint (bRequest ctrl) = 2 then Inl Duplicate_case_label
      else if uint (bRequest ctrl) = GET_DEVICE_ID
        then Inr [Printf ''  req = GET_DEVICE_ID\<newline>'' []]
      else if uint (bRequest ctrl) = HID_REQ_GET_PROTOCOL
        then Inr [Printf ''  req = HID_REQ_GET_PROTOCOL\<newline>'' []]
      else if uint (bRequest ctrl) = HID_REQ_SET_REPORT
        then Inr [Printf ''  req = HID_REQ_SET_REPORT\<newline>'' []]
      else if uint (bRequest ctrl) = HID_REQ_SET_IDLE
        then Inr [Printf ''  req = HID_REQ_SET_IDLE\<newline>'' []]
      else if uint (bRequest ctrl) = HID_REQ_SET_PROTOCOL
        then Inr [Printf ''  req = HID_REQ_SET_PROTOCOL\<newline>'' []]
      else Inr [Printf ''  req = unknown = 0x%x\<newline>'' [Arg_int (uint (bRequest ctrl))]])"
  by (simp add: log_control_request_req_def Let_def switch_on_def class_request_labels_def
        usb_consts)







section \<open>The request taxonomy\<close>

lemma standard_request_labels_distinct:
  "distinct [USB_REQ_GET_DESCRIPTOR, USB_REQ_SET_CONFIGURATION, USB_REQ_GET_CONFIGURATION,
     USB_REQ_SET_INTERFACE, USB_REQ_GET_INTERFACE, USB_REQ_GET_STATUS, USB_REQ_CLEAR_FEATURE,
     USB_REQ_SET_FEATURE]"
  by (simp add: usb_consts)

lemma standard_request_unknown:
  "uint (bRequestType ctrl) AND USB_TYPE_MASK = USB_TYPE_STANDARD \<Longrightarrow>
   (log_control_request_req ctrl =
      Inr [Printf ''  req = unknown = 0x%x\<newline>'' [Arg_int (uint (bRequest ctrl))]]) =
   (uint (bRequest ctrl) \<notin> {USB_REQ_GET_DESCRIPTOR, USB_REQ_SET_CONFIGURATION,
      USB_REQ_GET_CONFIGURATION, USB_REQ_SET_INTERFACE, USB_REQ_GET_INTERFACE,
      USB_REQ_GET_STATUS, USB_REQ_CLEAR_FEATURE, USB_REQ_SET_FEATURE})"
  by (simp add: log_control_request_req_def Let_def usb_consts)

lemma other_request_unknown:
  "uint (bRequestType ctrl) AND USB_TYPE_MASK \<noteq> USB_TYPE_STANDARD \<Longrightarrow>
   uint (bRequestType ctrl) AND USB_TYPE_MASK \<noteq> USB_TYPE_CLASS \<Longrightarrow>
   log_control_request_req ctrl =
     Inr [Printf ''  req = unknown = 0x%x\<newline>'' [Arg_int (uint (bRequest ctrl))]]"
  by (simp add: log_control_request_req_def Let_def)

text \<open>
  C6 fails on the code for the class requests. The claim lists nine class codes,
  each recognised as itself, and one outcome for every request. The \<^verbatim>\<open>switch\<close> of
  lines 402-434 has nine \<^verbatim>\<open>case\<close> labels for them, but only seven values: the value
  1 stands on the labels \<^verbatim>\<open>GET_PORT_STATUS\<close> and \<^verbatim>\<open>HID_REQ_GET_REPORT\<close>, the
  value 2 on \<^verbatim>\<open>SOFT_RESET\<close> and \<^verbatim>\<open>HID_REQ_GET_IDLE\<close>. A class request with the
  code 1 or 2, here the HID requests \<open>GET_REPORT\<close> and \<open>GET_IDLE\<close> as a host
  sends them, has two labels to go to and no outcome, neither from the \<^verbatim>\<open>switch\<close>
  nor from \<open>log_control_request\<close> as a whole.
\<close>

theorem class_switch_duplicate_labels:
  "filter (\<lambda>(l, body). l = 1) class_request_labels =
     [(GET_PORT_STATUS, [Printf ''  req = GET_PORT_STATUS\<newline>'' []]),
      (HID_REQ_GET_REPORT, [Printf ''  req = HID_REQ_GET_REPORT\<newline>'' []])] \<and>
   filter (\<lambda>(l, body). l = 2) class_request_labels =
     [(SOFT_RESET, [Printf ''  req = SOFT_RESET\<newline>'' []]),
      (HID_REQ_GET_IDLE, [Printf ''  req = HID_REQ_GET_IDLE\<newline>'' []])] \<and>
   length class_request_labels = 9 \<and>
   \<not> distinct (map fst class_request_labels) \<and>
   log_control_request_req
     \<lparr>bRequestType = 0xA1, bRequest = 0x01, wValue = 0x0100, wIndex = 0, wLength = 8\<rparr> =
     Inl Duplicate_case_label \<and>
   log_control_request_req
     \<lparr>bRequestType = 0xA1, bRequest = 0x02, wValue = 0, wIndex = 0, wLength = 1\<rparr> =
     Inl Duplicate_case_label \<and>
   log_control_request
     \<lparr>bRequestType = 0xA1, bRequest = 0x01, wValue = 0x0100, wIndex = 0, wLength = 8\<rparr> =
     Inl Duplicate_case_label"
  by (simp add: log_control_request_def log_control_request_req_def switch_on_def
        class_request_labels_def Let_def usb_consts)

section \<open>The descriptor type of a GET_DESCRIPTOR request\<close>

lemma uint_high_byte: "drop_bit 8 (uint (w :: u16)) = uint (drop_bit 8 w)"
  by (rule bit_eqI) (auto simp add: bit_uint_iff bit_drop_bit_eq dest: bit_imp_le_length)

lemma log_descriptor_type_cases:
  "log_descriptor_type ctrl =
     (
      if uint (drop_bit 8 (wValue ctrl)) = USB_DT_DEVICE
        then Printf ''  desc = USB_DT_DEVICE\<newline>'' []
      else if uint (drop_bit 8 (wValue ctrl)) = USB_DT_CONFIG
        then Printf ''  desc = USB_DT_CONFIG\<newline>'' []
      else if uint (drop_bit 8 (wValue ctrl)) = USB_DT_STRING
        then Printf ''  desc = USB_DT_STRING\<newline>'' []
      else if uint (drop_bit 8 (wValue ctrl)) = USB_DT_INTERFACE
        then Printf ''  desc = USB_DT_INTERFACE\<newline>'' []
      else if uint (drop_bit 8 (wValue ctrl)) = USB_DT_ENDPOINT
        then Printf ''  desc = USB_DT_ENDPOINT\<newline>'' []
      else if uint (drop_bit 8 (wValue ctrl)) = USB_DT_DEVICE_QUALIFIER
        then Printf ''  desc = USB_DT_DEVICE_QUALIFIER\<newline>'' []
      else if uint (drop_bit 8 (wValue ctrl)) = USB_DT_OTHER_SPEED_CONFIG
        then Printf ''  desc = USB_DT_OTHER_SPEED_CONFIG\<newline>'' []
      else if uint (drop_bit 8 (wValue ctrl)) = USB_DT_INTERFACE_POWER
        then Printf ''  desc = USB_DT_INTERFACE_POWER\<newline>'' []
      else if uint (drop_bit 8 (wValue ctrl)) = USB_DT_OTG
        then Printf ''  desc = USB_DT_OTG\<newline>'' []
      else if uint (drop_bit 8 (wValue ctrl)) = USB_DT_DEBUG
        then Printf ''  desc = USB_DT_DEBUG\<newline>'' []
      else if uint (drop_bit 8 (wValue ctrl)) = USB_DT_INTERFACE_ASSOCIATION
        then Printf ''  desc = USB_DT_INTERFACE_ASSOCIATION\<newline>'' []
      else if uint (drop_bit 8 (wValue ctrl)) = USB_DT_SECURITY
        then Printf ''  desc = USB_DT_SECURITY\<newline>'' []
      else if uint (drop_bit 8 (wValue ctrl)) = USB_DT_KEY
        then Printf ''  desc = USB_DT_KEY\<newline>'' []
      else if uint (drop_bit 8 (wValue ctrl)) = USB_DT_ENCRYPTION_TYPE
        then Printf ''  desc = USB_DT_ENCRYPTION_TYPE\<newline>'' []
      else if uint (drop_bit 8 (wValue ctrl)) = USB_DT_BOS
        then Printf ''  desc = USB_DT_BOS\<newline>'' []
      else if uint (drop_bit 8 (wValue ctrl)) = USB_DT_DEVICE_CAPABILITY
        then Printf ''  desc = USB_DT_DEVICE_CAPABILITY\<newline>'' []
      else if uint (drop_bit 8 (wValue ctrl)) = USB_DT_WIRELESS_ENDPOINT_COMP
        then Printf ''  desc = USB_DT_WIRELESS_ENDPOINT_COMP\<newline>'' []
      else if uint (drop_bit 8 (wValue ctrl)) = USB_DT_PIPE_USAGE
        then Printf ''  desc = USB_DT_PIPE_USAGE\<newline>'' []
      else if uint (drop_bit 8 (wValue ctrl)) = USB_DT_SS_ENDPOINT_COMP
        then Printf ''  desc = USB_DT_SS_ENDPOINT_COMP\<newline>'' []
      else if uint (drop_bit 8 (wValue ctrl)) = HID_DT_HID
        then Printf ''  descriptor = HID_DT_HID\<newline>'' []
      else if uint (drop_bit 8 (wValue ctrl)) = HID_DT_REPORT
        then Printf ''  descriptor = HID_DT_REPORT\<newline>'' []
      else if uint (drop_bit 8 (wValue ctrl)) = HID_DT_PHYSICAL
        then Printf ''  descriptor = HID_DT_PHYSICAL\<newline>'' []
      else Printf ''  desc = unknown = 0x%x\<newline>'' [Arg_int (uint (drop_bit 8 (wValue ctrl)))])"
  by (simp only: log_descriptor_type_def Let_def uint_high_byte)

lemma log_descriptor_type_unknown:
  "(log_descriptor_type ctrl =
      Printf ''  desc = unknown = 0x%x\<newline>'' [Arg_int (uint (drop_bit 8 (wValue ctrl)))]) =
   (uint (drop_bit 8 (wValue ctrl)) \<notin>
      {USB_DT_DEVICE, USB_DT_CONFIG, USB_DT_STRING, USB_DT_INTERFACE, USB_DT_ENDPOINT,
       USB_DT_DEVICE_QUALIFIER, USB_DT_OTHER_SPEED_CONFIG, USB_DT_INTERFACE_POWER,
       USB_DT_OTG, USB_DT_DEBUG, USB_DT_INTERFACE_ASSOCIATION, USB_DT_SECURITY, USB_DT_KEY,
       USB_DT_ENCRYPTION_TYPE, USB_DT_BOS, USB_DT_DEVICE_CAPABILITY,
       USB_DT_WIRELESS_ENDPOINT_COMP, USB_DT_PIPE_USAGE, USB_DT_SS_ENDPOINT_COMP,
       HID_DT_HID, HID_DT_REPORT, HID_DT_PHYSICAL})"
  by (simp add: log_descriptor_type_cases usb_consts)

lemma log_descriptor_type_high_byte:
  "drop_bit 8 (wValue ctrl') = drop_bit 8 (wValue ctrl) \<Longrightarrow>
   log_descriptor_type ctrl' = log_descriptor_type ctrl"
  by (simp only: log_descriptor_type_def uint_high_byte)

lemma get_descriptor_lines:
  "uint (bRequestType ctrl) AND USB_TYPE_MASK = USB_TYPE_STANDARD \<Longrightarrow>
   uint (bRequest ctrl) = USB_REQ_GET_DESCRIPTOR \<Longrightarrow>
   log_control_request ctrl =
     Inr [log_control_request_fields ctrl, Printf ''  type = USB_TYPE_STANDARD\<newline>'' [],
          Printf ''  req = USB_REQ_GET_DESCRIPTOR\<newline>'' [], log_descriptor_type ctrl]"
  by (simp add: log_control_request_def log_control_request_type_def
        log_control_request_req_def Let_def)

text \<open>
  C7. For a standard \<open>GET_DESCRIPTOR\<close> request the function prints four lines, the
  last of which names the descriptor type. That line is decided by the high byte of
  \<open>wValue\<close> (\<open>wValue >> 8\<close>) alone: two requests with the same high byte get the
  same line, whatever their low bytes (the descriptor index) are. Each of the
  nineteen standard descriptor types of the switch and each of \<open>HID_DT_HID\<close>,
  \<open>HID_DT_REPORT\<close>, \<open>HID_DT_PHYSICAL\<close> is named by its own line; the twenty-two
  labels are pairwise distinct, so each is reached by its own value. The line is
  the unknown line, with the high byte as its value, exactly when the high byte is
  none of the twenty-two.
\<close>

theorem get_descriptor_type_is_high_byte:
  assumes "uint (bRequestType ctrl) AND USB_TYPE_MASK = USB_TYPE_STANDARD"
    and "uint (bRequest ctrl) = USB_REQ_GET_DESCRIPTOR"
  shows "log_control_request ctrl =
      Inr [log_control_request_fields ctrl, Printf ''  type = USB_TYPE_STANDARD\<newline>'' [],
           Printf ''  req = USB_REQ_GET_DESCRIPTOR\<newline>'' [], log_descriptor_type ctrl] \<and>
    (uint (drop_bit 8 (wValue ctrl)) = USB_DT_DEVICE \<longrightarrow>
       log_descriptor_type ctrl = Printf ''  desc = USB_DT_DEVICE\<newline>'' []) \<and>
    (uint (drop_bit 8 (wValue ctrl)) = USB_DT_CONFIG \<longrightarrow>
       log_descriptor_type ctrl = Printf ''  desc = USB_DT_CONFIG\<newline>'' []) \<and>
    (uint (drop_bit 8 (wValue ctrl)) = USB_DT_STRING \<longrightarrow>
       log_descriptor_type ctrl = Printf ''  desc = USB_DT_STRING\<newline>'' []) \<and>
    (uint (drop_bit 8 (wValue ctrl)) = USB_DT_INTERFACE \<longrightarrow>
       log_descriptor_type ctrl = Printf ''  desc = USB_DT_INTERFACE\<newline>'' []) \<and>
    (uint (drop_bit 8 (wValue ctrl)) = USB_DT_ENDPOINT \<longrightarrow>
       log_descriptor_type ctrl = Printf ''  desc = USB_DT_ENDPOINT\<newline>'' []) \<and>
    (uint (drop_bit 8 (wValue ctrl)) = USB_DT_DEVICE_QUALIFIER \<longrightarrow>
       log_descriptor_type ctrl = Printf ''  desc = USB_DT_DEVICE_QUALIFIER\<newline>'' []) \<and>
    (uint (drop_bit 8 (wValue ctrl)) = USB_DT_OTHER_SPEED_CONFIG \<longrightarrow>
       log_descriptor_type ctrl = Printf ''  desc = USB_DT_OTHER_SPEED_CONFIG\<newline>'' []) \<and>
    (uint (drop_bit 8 (wValue ctrl)) = USB_DT_INTERFACE_POWER \<longrightarrow>
       log_descriptor_type ctrl = Printf ''  desc = USB_DT_INTERFACE_POWER\<newline>'' []) \<and>
    (uint (drop_bit 8 (wValue ctrl)) = USB_DT_OTG \<longrightarrow>
       log_descriptor_type ctrl = Printf ''  desc = USB_DT_OTG\<newline>'' []) \<and>
    (uint (drop_bit 8 (wValue ctrl)) = USB_DT_DEBUG \<longrightarrow>
       log_descriptor_type ctrl = Printf ''  desc = USB_DT_DEBUG\<newline>'' []) \<and>
    (uint (drop_bit 8 (wValue ctrl)) = USB_DT_INTERFACE_ASSOCIATION \<longrightarrow>
       log_descriptor_type ctrl = Printf ''  desc = USB_DT_INTERFACE_ASSOCIATION\<newline>'' []) \<and>
    (uint (drop_bit 8 (wValue ctrl)) = USB_DT_SECURITY \<longrightarrow>
       log_descriptor_type ctrl = Printf ''  desc = USB_DT_SECURITY\<newline>'' []) \<and>
    (uint (drop_bit 8 (wValue ctrl)) = USB_DT_KEY \<longrightarrow>
       log_descriptor_type ctrl = Printf ''  desc = USB_DT_KEY\<newline>'' []) \<and>
    (uint (drop_bit 8 (wValue ctrl)) = USB_DT_ENCRYPTION_TYPE \<longrightarrow>
       log_descriptor_type ctrl = Printf ''  desc = USB_DT_ENCRYPTION_TYPE\<newline>'' []) \<and>
    (uint (drop_bit 8 (wValue ctrl)) = USB_DT_BOS \<longrightarrow>
       log_descriptor_type ctrl = Printf ''  desc = USB_DT_BOS\<newline>'' []) \<and>
    (uint (drop_bit 8 (wValue ctrl)) = USB_DT_DEVICE_CAPABILITY \<longrightarrow>
       log_descriptor_type ctrl = Printf ''  desc = USB_DT_DEVICE_CAPABILITY\<newline>'' []) \<and>
    (uint (drop_bit 8 (wValue ctrl)) = USB_DT_WIRELESS_ENDPOINT_COMP \<longrightarrow>
       log_descriptor_type ctrl = Printf ''  desc = USB_DT_WIRELESS_ENDPOINT_COMP\<newline>'' []) \<and>
    (uint (drop_bit 8 (wValue ctrl)) = USB_DT_PIPE_USAGE \<longrightarrow>
       log_descriptor_type ctrl = Printf ''  desc = USB_DT_PIPE_USAGE\<newline>'' []) \<and>
    (uint (drop_bit 8 (wValue ctrl)) = USB_DT_SS_ENDPOINT_COMP \<longrightarrow>
       log_descriptor_type ctrl = Printf ''  desc = USB_DT_SS_ENDPOINT_COMP\<newline>'' []) \<and>
    (uint (drop_bit 8 (wValue ctrl)) = HID_DT_HID \<longrightarrow>
       log_descriptor_type ctrl = Printf ''  descriptor = HID_DT_HID\<newline>'' []) \<and>
    (uint (drop_bit 8 (wValue ctrl)) = HID_DT_REPORT \<longrightarrow>
       log_descriptor_type ctrl = Printf ''  descriptor = HID_DT_REPORT\<newline>'' []) \<and>
    (uint (drop_bit 8 (wValue ctrl)) = HID_DT_PHYSICAL \<longrightarrow>
       log_descriptor_type ctrl = Printf ''  descriptor = HID_DT_PHYSICAL\<newline>'' []) \<and>
    (log_descriptor_type ctrl =
       Printf ''  desc = unknown = 0x%x\<newline>'' [Arg_int (uint (drop_bit 8 (wValue ctrl)))]) =
    (uint (drop_bit 8 (wValue ctrl)) \<notin>
      {USB_DT_DEVICE, USB_DT_CONFIG, USB_DT_STRING, USB_DT_INTERFACE, USB_DT_ENDPOINT,
       USB_DT_DEVICE_QUALIFIER, USB_DT_OTHER_SPEED_CONFIG, USB_DT_INTERFACE_POWER,
       USB_DT_OTG, USB_DT_DEBUG, USB_DT_INTERFACE_ASSOCIATION, USB_DT_SECURITY, USB_DT_KEY,
       USB_DT_ENCRYPTION_TYPE, USB_DT_BOS, USB_DT_DEVICE_CAPABILITY,
       USB_DT_WIRELESS_ENDPOINT_COMP, USB_DT_PIPE_USAGE, USB_DT_SS_ENDPOINT_COMP,
       HID_DT_HID, HID_DT_REPORT, HID_DT_PHYSICAL}) \<and>
    (\<forall>ctrl' :: usb_ctrlrequest. drop_bit 8 (wValue ctrl') = drop_bit 8 (wValue ctrl) \<longrightarrow>
       log_descriptor_type ctrl' = log_descriptor_type ctrl) \<and>
    distinct
      [USB_DT_DEVICE, USB_DT_CONFIG, USB_DT_STRING, USB_DT_INTERFACE, USB_DT_ENDPOINT,
       USB_DT_DEVICE_QUALIFIER, USB_DT_OTHER_SPEED_CONFIG, USB_DT_INTERFACE_POWER,
       USB_DT_OTG, USB_DT_DEBUG, USB_DT_INTERFACE_ASSOCIATION, USB_DT_SECURITY, USB_DT_KEY,
       USB_DT_ENCRYPTION_TYPE, USB_DT_BOS, USB_DT_DEVICE_CAPABILITY,
       USB_DT_WIRELESS_ENDPOINT_COMP, USB_DT_PIPE_USAGE, USB_DT_SS_ENDPOINT_COMP,
       HID_DT_HID, HID_DT_REPORT, HID_DT_PHYSICAL]"
proof -
  have lines: "log_control_request ctrl =
      Inr [log_control_request_fields ctrl, Printf ''  type = USB_TYPE_STANDARD\<newline>'' [],
           Printf ''  req = USB_REQ_GET_DESCRIPTOR\<newline>'' [], log_descriptor_type ctrl]"
    using assms by (rule get_descriptor_lines)
  show ?thesis
    by (intro conjI impI allI) (simp_all add: lines log_descriptor_type_cases usb_consts)
qed

theorem get_descriptor_type_is_high_byte_witness:
  "uint (bRequestType \<lparr>bRequestType = 0x81, bRequest = 0x06, wValue = 0x2205, wIndex = 0, wLength = 64\<rparr>)
     AND USB_TYPE_MASK = USB_TYPE_STANDARD \<and>
   uint (bRequest \<lparr>bRequestType = 0x81, bRequest = 0x06, wValue = 0x2205, wIndex = 0, wLength = 64\<rparr>)
     = USB_REQ_GET_DESCRIPTOR \<and>
   log_control_request
     \<lparr>bRequestType = 0x81, bRequest = 0x06, wValue = 0x2205, wIndex = 0, wLength = 64\<rparr> =
     Inr [Printf ''  bRequestType: 0x%x (%s), bRequest: 0x%x, wValue: 0x%x, wIndex: 0x%x, wLength: %d\<newline>''
            [Arg_int 0x81, Arg_str ''IN'', Arg_int 6, Arg_int 0x2205, Arg_int 0, Arg_int 64],
          Printf ''  type = USB_TYPE_STANDARD\<newline>'' [],
          Printf ''  req = USB_REQ_GET_DESCRIPTOR\<newline>'' [],
          Printf ''  descriptor = HID_DT_REPORT\<newline>'' []] \<and>
   log_control_request
     \<lparr>bRequestType = 0x80, bRequest = 0x06, wValue = 0x0100, wIndex = 0, wLength = 18\<rparr> =
     Inr [Printf ''  bRequestType: 0x%x (%s), bRequest: 0x%x, wValue: 0x%x, wIndex: 0x%x, wLength: %d\<newline>''
            [Arg_int 0x80, Arg_str ''IN'', Arg_int 6, Arg_int 0x100, Arg_int 0, Arg_int 18],
          Printf ''  type = USB_TYPE_STANDARD\<newline>'' [],
          Printf ''  req = USB_REQ_GET_DESCRIPTOR\<newline>'' [],
          Printf ''  desc = USB_DT_DEVICE\<newline>'' []] \<and>
   log_control_request
     \<lparr>bRequestType = 0x80, bRequest = 0x06, wValue = 0x3007, wIndex = 0, wLength = 6\<rparr> =
     Inr [Printf ''  bRequestType: 0x%x (%s), bRequest: 0x%x, wValue: 0x%x, wIndex: 0x%x, wLength: %d\<newline>''
            [Arg_int 0x80, Arg_str ''IN'', Arg_int 6, Arg_int 0x3007, Arg_int 0, Arg_int 6],
          Printf ''  type = USB_TYPE_STANDARD\<newline>'' [],
          Printf ''  req = USB_REQ_GET_DESCRIPTOR\<newline>'' [],
          Printf ''  desc = USB_DT_SS_ENDPOINT_COMP\<newline>'' []] \<and>
   log_control_request
     \<lparr>bRequestType = 0x80, bRequest = 0x06, wValue = 0x4001, wIndex = 0, wLength = 2\<rparr> =
     Inr [Printf ''  bRequestType: 0x%x (%s), bRequest: 0x%x, wValue: 0x%x, wIndex: 0x%x, wLength: %d\<newline>''
            [Arg_int 0x80, Arg_str ''IN'', Arg_int 6, Arg_int 0x4001, Arg_int 0, Arg_int 2],
          Printf ''  type = USB_TYPE_STANDARD\<newline>'' [],
          Printf ''  req = USB_REQ_GET_DESCRIPTOR\<newline>'' [],
          Printf ''  desc = unknown = 0x%x\<newline>'' [Arg_int 0x40]]"
proof -
  let ?a = "\<lparr>bRequestType = 0x81, bRequest = 0x06, wValue = 0x2205, wIndex = 0, wLength = 64\<rparr>"
  let ?b = "\<lparr>bRequestType = 0x80, bRequest = 0x06, wValue = 0x0100, wIndex = 0, wLength = 18\<rparr>"
  let ?c = "\<lparr>bRequestType = 0x80, bRequest = 0x06, wValue = 0x3007, wIndex = 0, wLength = 6\<rparr>"
  let ?d = "\<lparr>bRequestType = 0x80, bRequest = 0x06, wValue = 0x4001, wIndex = 0, wLength = 2\<rparr>"
  have t: "uint (bRequestType ?a) AND USB_TYPE_MASK = USB_TYPE_STANDARD"
    "uint (bRequestType ?b) AND USB_TYPE_MASK = USB_TYPE_STANDARD"
    "uint (bRequestType ?c) AND USB_TYPE_MASK = USB_TYPE_STANDARD"
    "uint (bRequestType ?d) AND USB_TYPE_MASK = USB_TYPE_STANDARD"
    by (simp_all add: usb_consts)
  have r: "uint (bRequest ?a) = USB_REQ_GET_DESCRIPTOR" "uint (bRequest ?b) = USB_REQ_GET_DESCRIPTOR"
    "uint (bRequest ?c) = USB_REQ_GET_DESCRIPTOR" "uint (bRequest ?d) = USB_REQ_GET_DESCRIPTOR"
    by (simp_all add: usb_consts)
  have h: "uint (drop_bit 8 (wValue ?a)) = HID_DT_REPORT"
    "uint (drop_bit 8 (wValue ?b)) = USB_DT_DEVICE"
    "uint (drop_bit 8 (wValue ?c)) = USB_DT_SS_ENDPOINT_COMP"
    "uint (drop_bit 8 (wValue ?d)) = 0x40"
    by (simp_all add: usb_consts drop_bit_eq_div)
  have f: "log_control_request_fields ?a =
      Printf ''  bRequestType: 0x%x (%s), bRequest: 0x%x, wValue: 0x%x, wIndex: 0x%x, wLength: %d\<newline>''
        [Arg_int 0x81, Arg_str ''IN'', Arg_int 6, Arg_int 0x2205, Arg_int 0, Arg_int 64]"
    "log_control_request_fields ?b =
      Printf ''  bRequestType: 0x%x (%s), bRequest: 0x%x, wValue: 0x%x, wIndex: 0x%x, wLength: %d\<newline>''
        [Arg_int 0x80, Arg_str ''IN'', Arg_int 6, Arg_int 0x100, Arg_int 0, Arg_int 18]"
    "log_control_request_fields ?c =
      Printf ''  bRequestType: 0x%x (%s), bRequest: 0x%x, wValue: 0x%x, wIndex: 0x%x, wLength: %d\<newline>''
        [Arg_int 0x80, Arg_str ''IN'', Arg_int 6, Arg_int 0x3007, Arg_int 0, Arg_int 6]"
    "log_control_request_fields ?d =
      Printf ''  bRequestType: 0x%x (%s), bRequest: 0x%x, wValue: 0x%x, wIndex: 0x%x, wLength: %d\<newline>''
        [Arg_int 0x80, Arg_str ''IN'', Arg_int 6, Arg_int 0x4001, Arg_int 0, Arg_int 2]"
    by (simp_all add: log_control_request_fields_def usb_consts)
  have a: "log_descriptor_type ?a = Printf ''  descriptor = HID_DT_REPORT\<newline>'' []"
    using get_descriptor_type_is_high_byte [OF t(1) r(1)] h(1) by (simp add: usb_consts)
  have b: "log_descriptor_type ?b = Printf ''  desc = USB_DT_DEVICE\<newline>'' []"
    using get_descriptor_type_is_high_byte [OF t(2) r(2)] h(2) by (simp add: usb_consts)
  have c: "log_descriptor_type ?c = Printf ''  desc = USB_DT_SS_ENDPOINT_COMP\<newline>'' []"
    using get_descriptor_type_is_high_byte [OF t(3) r(3)] h(3) by (simp add: usb_consts)
  have d: "log_descriptor_type ?d = Printf ''  desc = unknown = 0x%x\<newline>'' [Arg_int 0x40]"
    using get_descriptor_type_is_high_byte [OF t(4) r(4)] h(4) by (simp add: usb_consts)
  from get_descriptor_type_is_high_byte [OF t(1) r(1)] get_descriptor_type_is_high_byte [OF t(2) r(2)]
    get_descriptor_type_is_high_byte [OF t(3) r(3)] get_descriptor_type_is_high_byte [OF t(4) r(4)]
    t r a b c d f
  show ?thesis
    by (simp only: simp_thms)
qed

section \<open>Events\<close>











section \<open>The failure policy of the wrappers\<close>

lemma usb_raw_open_fatal:
  "fatal_on_failure ''open()'' (sys_open k (world st) ''/dev/raw-gadget'' O_RDWR) id st
     (usb_raw_open k st)"
  by (simp add: fatal_on_failure_def usb_raw_open_def perror_def split: prod.split)

lemma usb_raw_init_fatal:
  "usb_raw_init_fill sp driver device arg = Inr a \<Longrightarrow>
   fatal_on_failure ''ioctl(USB_RAW_IOCTL_INIT)''
     (sys_ioctl k (world st) fd USB_RAW_IOCTL_INIT (Ioctl_init a)) (\<lambda>rv. ()) st
     (usb_raw_init k fd sp driver device arg st)"
  by (simp add: fatal_on_failure_def usb_raw_init_def perror_def split: prod.split)

lemma usb_raw_run_fatal:
  "fatal_on_failure ''ioctl(USB_RAW_IOCTL_RUN)''
     (sys_ioctl k (world st) fd USB_RAW_IOCTL_RUN (Ioctl_value 0)) (\<lambda>rv. ()) st
     (usb_raw_run k fd st)"
  by (simp add: fatal_on_failure_def usb_raw_run_def perror_def split: prod.split)

lemma usb_raw_event_fetch_fatal:
  "fatal_on_failure ''ioctl(USB_RAW_IOCTL_EVENT_FETCH)''
     (sys_ioctl k (world st) fd USB_RAW_IOCTL_EVENT_FETCH (Ioctl_pointer event)) (\<lambda>rv. ()) st
     (usb_raw_event_fetch k fd event st)"
  by (simp add: fatal_on_failure_def usb_raw_event_fetch_def perror_def split: prod.split)

lemma usb_raw_ep0_read_fatal:
  "fatal_on_failure ''ioctl(USB_RAW_IOCTL_EP0_READ)''
     (sys_ioctl k (world st) fd USB_RAW_IOCTL_EP0_READ (Ioctl_pointer io)) id st
     (usb_raw_ep0_read k fd io st)"
  by (simp add: fatal_on_failure_def usb_raw_ep0_read_def perror_def split: prod.split)

lemma usb_raw_ep0_write_fatal:
  "fatal_on_failure ''ioctl(USB_RAW_IOCTL_EP0_WRITE)''
     (sys_ioctl k (world st) fd USB_RAW_IOCTL_EP0_WRITE (Ioctl_pointer io)) id st
     (usb_raw_ep0_write k fd io st)"
  by (simp add: fatal_on_failure_def usb_raw_ep0_write_def perror_def split: prod.split)

lemma usb_raw_ep_enable_fatal:
  "fatal_on_failure ''ioctl(USB_RAW_IOCTL_EP_ENABLE)''
     (sys_ioctl k (world st) fd USB_RAW_IOCTL_EP_ENABLE (Ioctl_pointer desc)) id st
     (usb_raw_ep_enable k fd desc st)"
  by (simp add: fatal_on_failure_def usb_raw_ep_enable_def perror_def split: prod.split)

lemma usb_raw_ep_read_fatal:
  "fatal_on_failure ''ioctl(USB_RAW_IOCTL_EP_READ)''
     (sys_ioctl k (world st) fd USB_RAW_IOCTL_EP_READ (Ioctl_pointer io)) id st
     (usb_raw_ep_read k fd io st)"
  by (simp add: fatal_on_failure_def usb_raw_ep_read_def perror_def split: prod.split)

lemma usb_raw_ep_disable_fatal:
  "fatal_on_failure ''ioctl(USB_RAW_IOCTL_EP_DISABLE)''
     (sys_ioctl k (world st) fd USB_RAW_IOCTL_EP_DISABLE (Ioctl_value ep)) id st
     (usb_raw_ep_disable k fd ep st)"
  by (simp add: fatal_on_failure_def usb_raw_ep_disable_def perror_def split: prod.split)

lemma usb_raw_ep_write_fatal:
  "fatal_on_failure ''ioctl(USB_RAW_IOCTL_EP_WRITE)''
     (sys_ioctl k (world st) fd USB_RAW_IOCTL_EP_WRITE (Ioctl_pointer io)) id st
     (usb_raw_ep_write k fd io st)"
  by (simp add: fatal_on_failure_def usb_raw_ep_write_def perror_def split: prod.split)

lemma usb_raw_configure_fatal:
  "fatal_on_failure ''ioctl(USB_RAW_IOCTL_CONFIGURED)''
     (sys_ioctl k (world st) fd USB_RAW_IOCTL_CONFIGURE (Ioctl_value 0)) (\<lambda>rv. ()) st
     (usb_raw_configure k fd st)"
  by (simp add: fatal_on_failure_def usb_raw_configure_def perror_def split: prod.split)

lemma usb_raw_vbus_draw_fatal:
  "fatal_on_failure ''ioctl(USB_RAW_IOCTL_VBUS_DRAW)''
     (sys_ioctl k (world st) fd USB_RAW_IOCTL_VBUS_DRAW (Ioctl_value (uint mA))) (\<lambda>rv. ()) st
     (usb_raw_vbus_draw k fd mA st)"
  by (simp add: fatal_on_failure_def usb_raw_vbus_draw_def perror_def split: prod.split)

lemma usb_raw_eps_info_fatal:
  "fatal_on_failure ''ioctl(USB_RAW_IOCTL_EPS_INFO)''
     (sys_ioctl k (world st) fd USB_RAW_IOCTL_EPS_INFO (Ioctl_pointer info)) id st
     (usb_raw_eps_info k fd info st)"
  by (simp add: fatal_on_failure_def usb_raw_eps_info_def perror_def split: prod.split)

lemma usb_raw_ep0_stall_fatal:
  "fatal_on_failure ''ioctl(USB_RAW_IOCTL_EP0_STALL)''
     (sys_ioctl k (world st) fd USB_RAW_IOCTL_EP0_STALL (Ioctl_value 0)) (\<lambda>rv. ()) st
     (usb_raw_ep0_stall k fd st)"
  by (simp add: fatal_on_failure_def usb_raw_ep0_stall_def perror_def split: prod.split)

lemma usb_raw_ep_set_halt_fatal:
  "fatal_on_failure ''ioctl(USB_RAW_IOCTL_EP_SET_HALT)''
     (sys_ioctl k (world st) fd USB_RAW_IOCTL_EP_SET_HALT (Ioctl_value ep)) (\<lambda>rv. ()) st
     (usb_raw_ep_set_halt k fd ep st)"
  by (simp add: fatal_on_failure_def usb_raw_ep_set_halt_def perror_def split: prod.split)

lemma diagnostics_distinct:
  "distinct [''open()'', ''ioctl(USB_RAW_IOCTL_INIT)'', ''ioctl(USB_RAW_IOCTL_RUN)'',
     ''ioctl(USB_RAW_IOCTL_EVENT_FETCH)'', ''ioctl(USB_RAW_IOCTL_EP0_READ)'',
     ''ioctl(USB_RAW_IOCTL_EP0_WRITE)'', ''ioctl(USB_RAW_IOCTL_EP_ENABLE)'',
     ''ioctl(USB_RAW_IOCTL_EP_DISABLE)'', ''ioctl(USB_RAW_IOCTL_EP_READ)'',
     ''ioctl(USB_RAW_IOCTL_EP_WRITE)'', ''ioctl(USB_RAW_IOCTL_CONFIGURED)'',
     ''ioctl(USB_RAW_IOCTL_VBUS_DRAW)'', ''ioctl(USB_RAW_IOCTL_EPS_INFO)'',
     ''ioctl(USB_RAW_IOCTL_EP0_STALL)'', ''ioctl(USB_RAW_IOCTL_EP_SET_HALT)'']"
  by simp

text \<open>
  C1. Each of the fifteen wrappers \<open>usb_raw_open\<close>, \<open>usb_raw_init\<close>, \<open>usb_raw_run\<close>,
  \<open>usb_raw_event_fetch\<close>, \<open>usb_raw_ep0_read\<close>, \<open>usb_raw_ep0_write\<close>,
  \<open>usb_raw_ep_enable\<close>, \<open>usb_raw_ep_disable\<close>, \<open>usb_raw_ep_read\<close>,
  \<open>usb_raw_ep_write\<close>, \<open>usb_raw_configure\<close>, \<open>usb_raw_vbus_draw\<close>,
  \<open>usb_raw_eps_info\<close>, \<open>usb_raw_ep0_stall\<close> and \<open>usb_raw_ep_set_halt\<close> makes one
  kernel call. When the call returns a negative value the process exits with
  \<open>EXIT_FAILURE\<close> after one diagnostic on the standard error stream; when it
  returns a value that is not negative the wrapper returns that value (nothing, for
  the wrappers of type void) and the state of the process is the one the kernel call
  left. The fifteen diagnostics are pairwise distinct, so each names its operation.
  For \<open>usb_raw_init\<close> the kernel call is reached when the two names were copied
  into the structure.
\<close>

theorem fatal_wrappers_exit_on_failure:
  "fatal_on_failure ''open()'' (sys_open k (world st) ''/dev/raw-gadget'' O_RDWR) id st
     (usb_raw_open k st) \<and>
   (\<forall>a. usb_raw_init_fill sp driver device arg = Inr a \<longrightarrow>
      fatal_on_failure ''ioctl(USB_RAW_IOCTL_INIT)''
        (sys_ioctl k (world st) fd USB_RAW_IOCTL_INIT (Ioctl_init a)) (\<lambda>rv. ()) st
        (usb_raw_init k fd sp driver device arg st)) \<and>
   fatal_on_failure ''ioctl(USB_RAW_IOCTL_RUN)''
     (sys_ioctl k (world st) fd USB_RAW_IOCTL_RUN (Ioctl_value 0)) (\<lambda>rv. ()) st
     (usb_raw_run k fd st) \<and>
   fatal_on_failure ''ioctl(USB_RAW_IOCTL_EVENT_FETCH)''
     (sys_ioctl k (world st) fd USB_RAW_IOCTL_EVENT_FETCH (Ioctl_pointer event)) (\<lambda>rv. ()) st
     (usb_raw_event_fetch k fd event st) \<and>
   fatal_on_failure ''ioctl(USB_RAW_IOCTL_EP0_READ)''
     (sys_ioctl k (world st) fd USB_RAW_IOCTL_EP0_READ (Ioctl_pointer io)) id st
     (usb_raw_ep0_read k fd io st) \<and>
   fatal_on_failure ''ioctl(USB_RAW_IOCTL_EP0_WRITE)''
     (sys_ioctl k (world st) fd USB_RAW_IOCTL_EP0_WRITE (Ioctl_pointer io)) id st
     (usb_raw_ep0_write k fd io st) \<and>
   fatal_on_failure ''ioctl(USB_RAW_IOCTL_EP_ENABLE)''
     (sys_ioctl k (world st) fd USB_RAW_IOCTL_EP_ENABLE (Ioctl_pointer desc)) id st
     (usb_raw_ep_enable k fd desc st) \<and>
   fatal_on_failure ''ioctl(USB_RAW_IOCTL_EP_DISABLE)''
     (sys_ioctl k (world st) fd USB_RAW_IOCTL_EP_DISABLE (Ioctl_value ep)) id st
     (usb_raw_ep_disable k fd ep st) \<and>
   fatal_on_failure ''ioctl(USB_RAW_IOCTL_EP_READ)''
     (sys_ioctl k (world st) fd USB_RAW_IOCTL_EP_READ (Ioctl_pointer io)) id st
     (usb_raw_ep_read k fd io st) \<and>
   fatal_on_failure ''ioctl(USB_RAW_IOCTL_EP_WRITE)''
     (sys_ioctl k (world st) fd USB_RAW_IOCTL_EP_WRITE (Ioctl_pointer io)) id st
     (usb_raw_ep_write k fd io st) \<and>
   fatal_on_failure ''ioctl(USB_RAW_IOCTL_CONFIGURED)''
     (sys_ioctl k (world st) fd USB_RAW_IOCTL_CONFIGURE (Ioctl_value 0)) (\<lambda>rv. ()) st
     (usb_raw_configure k fd st) \<and>
   fatal_on_failure ''ioctl(USB_RAW_IOCTL_VBUS_DRAW)''
     (sys_ioctl k (world st) fd USB_RAW_IOCTL_VBUS_DRAW (Ioctl_value (uint mA))) (\<lambda>rv. ()) st
     (usb_raw_vbus_draw k fd mA st) \<and>
   fatal_on_failure ''ioctl(USB_RAW_IOCTL_EPS_INFO)''
     (sys_ioctl k (world st) fd USB_RAW_IOCTL_EPS_INFO (Ioctl_pointer info)) id st
     (usb_raw_eps_info k fd info st) \<and>
   fatal_on_failure ''ioctl(USB_RAW_IOCTL_EP0_STALL)''
     (sys_ioctl k (world st) fd USB_RAW_IOCTL_EP0_STALL (Ioctl_value 0)) (\<lambda>rv. ()) st
     (usb_raw_ep0_stall k fd st) \<and>
   fatal_on_failure ''ioctl(USB_RAW_IOCTL_EP_SET_HALT)''
     (sys_ioctl k (world st) fd USB_RAW_IOCTL_EP_SET_HALT (Ioctl_value ep)) (\<lambda>rv. ()) st
     (usb_raw_ep_set_halt k fd ep st) \<and>
   distinct [''open()'', ''ioctl(USB_RAW_IOCTL_INIT)'', ''ioctl(USB_RAW_IOCTL_RUN)'',
     ''ioctl(USB_RAW_IOCTL_EVENT_FETCH)'', ''ioctl(USB_RAW_IOCTL_EP0_READ)'',
     ''ioctl(USB_RAW_IOCTL_EP0_WRITE)'', ''ioctl(USB_RAW_IOCTL_EP_ENABLE)'',
     ''ioctl(USB_RAW_IOCTL_EP_DISABLE)'', ''ioctl(USB_RAW_IOCTL_EP_READ)'',
     ''ioctl(USB_RAW_IOCTL_EP_WRITE)'', ''ioctl(USB_RAW_IOCTL_CONFIGURED)'',
     ''ioctl(USB_RAW_IOCTL_VBUS_DRAW)'', ''ioctl(USB_RAW_IOCTL_EPS_INFO)'',
     ''ioctl(USB_RAW_IOCTL_EP0_STALL)'', ''ioctl(USB_RAW_IOCTL_EP_SET_HALT)'']"
  by (intro conjI allI impI usb_raw_open_fatal usb_raw_init_fatal usb_raw_run_fatal
        usb_raw_event_fetch_fatal usb_raw_ep0_read_fatal usb_raw_ep0_write_fatal
        usb_raw_ep_enable_fatal usb_raw_ep_disable_fatal usb_raw_ep_read_fatal
        usb_raw_ep_write_fatal usb_raw_configure_fatal usb_raw_vbus_draw_fatal
        usb_raw_eps_info_fatal usb_raw_ep0_stall_fatal usb_raw_ep_set_halt_fatal
        diagnostics_distinct)

text \<open>
  A kernel for the examples: its state counts the calls; \<open>open\<close> gives descriptor 3,
  \<open>RUN\<close> and \<open>EP_WRITE\<close> fail with -1, every other request gives 0.
\<close>

theorem fatal_wrappers_exit_on_failure_witness:
  "usb_raw_run
     \<lparr>sys_open = \<lambda>w p f. (3, Suc w),
      sys_ioctl = \<lambda>w fd r a. (if r = USB_RAW_IOCTL_RUN \<or> r = USB_RAW_IOCTL_EP_WRITE then - 1 else 0, Suc w)\<rparr>
     3 \<lparr>world = 0, stderr = []\<rparr> =
     (Exited 1, \<lparr>world = 1, stderr = [''ioctl(USB_RAW_IOCTL_RUN)'']\<rparr>) \<and>
   usb_raw_open
     \<lparr>sys_open = \<lambda>w p f. (3, Suc w),
      sys_ioctl = \<lambda>w fd r a. (if r = USB_RAW_IOCTL_RUN \<or> r = USB_RAW_IOCTL_EP_WRITE then - 1 else 0, Suc w)\<rparr>
     \<lparr>world = 0, stderr = []\<rparr> =
     (Returned 3, \<lparr>world = 1, stderr = []\<rparr>) \<and>
   (\<exists>a. usb_raw_init_fill USB_SPEED_HIGH ''dummy_udc'' ''dummy_udc.0''
          \<lparr>driver_name = \<lambda>i. CHR ''x'', device_name = \<lambda>i. CHR ''y'', speed = 0xFF\<rparr> = Inr a) \<and>
   usb_raw_init
     \<lparr>sys_open = \<lambda>w p f. (3, Suc w),
      sys_ioctl = \<lambda>w fd r a. (if r = USB_RAW_IOCTL_RUN \<or> r = USB_RAW_IOCTL_EP_WRITE then - 1 else 0, Suc w)\<rparr>
     3 USB_SPEED_HIGH ''dummy_udc'' ''dummy_udc.0''
     \<lparr>driver_name = \<lambda>i. CHR ''x'', device_name = \<lambda>i. CHR ''y'', speed = 0xFF\<rparr>
     \<lparr>world = 0, stderr = []\<rparr> =
     (Returned (), \<lparr>world = 1, stderr = []\<rparr>)"
proof -
  let ?k = "\<lparr>sys_open = \<lambda>(w :: nat) (p :: string) (f :: open_flags). (3 :: int, Suc w),
      sys_ioctl = \<lambda>(w :: nat) (fd :: int) r (a :: ioctl_arg).
        (if r = USB_RAW_IOCTL_RUN \<or> r = USB_RAW_IOCTL_EP_WRITE then - 1 else 0 :: int, Suc w)\<rparr>"
  let ?st = "\<lparr>world = 0 :: nat, stderr = []\<rparr>"
  let ?arg = "\<lparr>driver_name = \<lambda>i. CHR ''x'', device_name = \<lambda>i. CHR ''y'', speed = 0xFF\<rparr>"
  have "\<exists>a. usb_raw_init_fill USB_SPEED_HIGH ''dummy_udc'' ''dummy_udc.0'' ?arg = Inr a"
    by (simp add: usb_raw_init_fill_def strcpy_def c_string_def UDC_NAME_LENGTH_MAX_def Let_def)
  then obtain a where a: "usb_raw_init_fill USB_SPEED_HIGH ''dummy_udc'' ''dummy_udc.0'' ?arg = Inr a"
    by blast
  note w = fatal_wrappers_exit_on_failure [where k = ?k and st = ?st and fd = 3
      and sp = USB_SPEED_HIGH and driver = "''dummy_udc''" and device = "''dummy_udc.0''"
      and arg = ?arg]
  from w a have "fatal_on_failure ''ioctl(USB_RAW_IOCTL_INIT)''
        (sys_ioctl ?k (world ?st) 3 USB_RAW_IOCTL_INIT (Ioctl_init a)) (\<lambda>rv. ()) ?st
        (usb_raw_init ?k 3 USB_SPEED_HIGH ''dummy_udc'' ''dummy_udc.0'' ?arg ?st)"
    by blast
  with w a show ?thesis
    by (simp add: fatal_on_failure_def EXIT_FAILURE_def)
qed

section \<open>The write that may fail\<close>

lemma fatal_returns_value:
  "fatal_on_failure diag call id st res \<Longrightarrow> res = (Returned v, st') \<Longrightarrow> 0 \<le> v"
  by (auto simp add: fatal_on_failure_def split: prod.splits if_splits)

lemma fatal_returns_unit:
  "fatal_on_failure diag call (\<lambda>rv. ()) st res \<Longrightarrow> res = (Returned (), st') \<Longrightarrow> 0 \<le> fst call"
  by (auto simp add: fatal_on_failure_def split: prod.splits if_splits)

text \<open>
  C2. \<open>usb_raw_ep_write_may_fail\<close> returns the result of the kernel call whatever
  its sign, writes no diagnostic and never exits. It is the only wrapper that does:
  each of the fifteen others returns only when the result of its kernel call is
  not negative, the two endpoint reads and the other endpoint write among them.
\<close>

theorem only_ep_write_may_fail:
  "usb_raw_ep_write_may_fail k fd io st =
     (Returned (fst (sys_ioctl k (world st) fd USB_RAW_IOCTL_EP_WRITE (Ioctl_pointer io))),
      st\<lparr>world := snd (sys_ioctl k (world st) fd USB_RAW_IOCTL_EP_WRITE (Ioctl_pointer io))\<rparr>) \<and>
   (\<forall>v st'. usb_raw_ep_write k fd io st = (Returned v, st') \<longrightarrow> 0 \<le> v) \<and>
   (\<forall>v st'. usb_raw_ep_read k fd io st = (Returned v, st') \<longrightarrow> 0 \<le> v) \<and>
   (\<forall>v st'. usb_raw_ep0_read k fd io st = (Returned v, st') \<longrightarrow> 0 \<le> v) \<and>
   (\<forall>v st'. usb_raw_ep0_write k fd io st = (Returned v, st') \<longrightarrow> 0 \<le> v) \<and>
   (\<forall>v st'. usb_raw_ep_enable k fd desc st = (Returned v, st') \<longrightarrow> 0 \<le> v) \<and>
   (\<forall>v st'. usb_raw_ep_disable k fd ep st = (Returned v, st') \<longrightarrow> 0 \<le> v) \<and>
   (\<forall>v st'. usb_raw_eps_info k fd info st = (Returned v, st') \<longrightarrow> 0 \<le> v) \<and>
   (\<forall>v st'. usb_raw_open k st = (Returned v, st') \<longrightarrow> 0 \<le> v) \<and>
   (\<forall>a st'. usb_raw_init_fill sp driver device arg = Inr a \<and>
        usb_raw_init k fd sp driver device arg st = (Returned (), st') \<longrightarrow>
      0 \<le> fst (sys_ioctl k (world st) fd USB_RAW_IOCTL_INIT (Ioctl_init a))) \<and>
   (\<forall>st'. usb_raw_run k fd st = (Returned (), st') \<longrightarrow>
      0 \<le> fst (sys_ioctl k (world st) fd USB_RAW_IOCTL_RUN (Ioctl_value 0))) \<and>
   (\<forall>st'. usb_raw_event_fetch k fd event st = (Returned (), st') \<longrightarrow>
      0 \<le> fst (sys_ioctl k (world st) fd USB_RAW_IOCTL_EVENT_FETCH (Ioctl_pointer event))) \<and>
   (\<forall>st'. usb_raw_configure k fd st = (Returned (), st') \<longrightarrow>
      0 \<le> fst (sys_ioctl k (world st) fd USB_RAW_IOCTL_CONFIGURE (Ioctl_value 0))) \<and>
   (\<forall>st'. usb_raw_vbus_draw k fd mA st = (Returned (), st') \<longrightarrow>
      0 \<le> fst (sys_ioctl k (world st) fd USB_RAW_IOCTL_VBUS_DRAW (Ioctl_value (uint mA)))) \<and>
   (\<forall>st'. usb_raw_ep0_stall k fd st = (Returned (), st') \<longrightarrow>
      0 \<le> fst (sys_ioctl k (world st) fd USB_RAW_IOCTL_EP0_STALL (Ioctl_value 0))) \<and>
   (\<forall>st'. usb_raw_ep_set_halt k fd ep st = (Returned (), st') \<longrightarrow>
      0 \<le> fst (sys_ioctl k (world st) fd USB_RAW_IOCTL_EP_SET_HALT (Ioctl_value ep)))"
proof (intro conjI allI impI)
  show "usb_raw_ep_write_may_fail k fd io st =
     (Returned (fst (sys_ioctl k (world st) fd USB_RAW_IOCTL_EP_WRITE (Ioctl_pointer io))),
      st\<lparr>world := snd (sys_ioctl k (world st) fd USB_RAW_IOCTL_EP_WRITE (Ioctl_pointer io))\<rparr>)"
    by (simp add: usb_raw_ep_write_may_fail_def split: prod.split)
next
  fix a st'
  assume "usb_raw_init_fill sp driver device arg = Inr a \<and>
    usb_raw_init k fd sp driver device arg st = (Returned (), st')"
  then show "0 \<le> fst (sys_ioctl k (world st) fd USB_RAW_IOCTL_INIT (Ioctl_init a))"
    using fatal_returns_unit [OF usb_raw_init_fatal] by blast
qed (erule fatal_returns_value [OF usb_raw_ep_write_fatal]
       fatal_returns_value [OF usb_raw_ep_read_fatal]
       fatal_returns_value [OF usb_raw_ep0_read_fatal]
       fatal_returns_value [OF usb_raw_ep0_write_fatal]
       fatal_returns_value [OF usb_raw_ep_enable_fatal]
       fatal_returns_value [OF usb_raw_ep_disable_fatal]
       fatal_returns_value [OF usb_raw_eps_info_fatal]
       fatal_returns_value [OF usb_raw_open_fatal]
       fatal_returns_unit [OF usb_raw_run_fatal]
       fatal_returns_unit [OF usb_raw_event_fetch_fatal]
       fatal_returns_unit [OF usb_raw_configure_fatal]
       fatal_returns_unit [OF usb_raw_vbus_draw_fatal]
       fatal_returns_unit [OF usb_raw_ep0_stall_fatal]
       fatal_returns_unit [OF usb_raw_ep_set_halt_fatal])+

theorem only_ep_write_may_fail_witness:
  "usb_raw_ep_write_may_fail
     \<lparr>sys_open = \<lambda>w p f. (3, Suc w),
      sys_ioctl = \<lambda>w fd r a. (if r = USB_RAW_IOCTL_RUN \<or> r = USB_RAW_IOCTL_EP_WRITE then - 1 else 0, Suc w)\<rparr>
     3 64 \<lparr>world = 0, stderr = []\<rparr> =
     (Returned (- 1), \<lparr>world = 1, stderr = []\<rparr>) \<and>
   usb_raw_ep_write
     \<lparr>sys_open = \<lambda>w p f. (3, Suc w),
      sys_ioctl = \<lambda>w fd r a. (if r = USB_RAW_IOCTL_RUN \<or> r = USB_RAW_IOCTL_EP_WRITE then - 1 else 0, Suc w)\<rparr>
     3 64 \<lparr>world = 0, stderr = []\<rparr> =
     (Exited 1, \<lparr>world = 1, stderr = [''ioctl(USB_RAW_IOCTL_EP_WRITE)'']\<rparr>) \<and>
   usb_raw_ep_read
     \<lparr>sys_open = \<lambda>w p f. (3, Suc w),
      sys_ioctl = \<lambda>w fd r a. (if r = USB_RAW_IOCTL_RUN \<or> r = USB_RAW_IOCTL_EP_WRITE then - 1 else 0, Suc w)\<rparr>
     3 64 \<lparr>world = 0, stderr = []\<rparr> =
     (Returned 0, \<lparr>world = 1, stderr = []\<rparr>) \<and>
   (0 :: int) \<le> 0"
  using only_ep_write_may_fail [where
      k = "\<lparr>sys_open = \<lambda>(w :: nat) (p :: string) (f :: open_flags). (3 :: int, Suc w),
        sys_ioctl = \<lambda>(w :: nat) (fd :: int) r (a :: ioctl_arg).
          (if r = USB_RAW_IOCTL_RUN \<or> r = USB_RAW_IOCTL_EP_WRITE then - 1 else 0 :: int, Suc w)\<rparr>"
      and st = "\<lparr>world = 0 :: nat, stderr = []\<rparr>" and fd = 3 and io = 64]
  by (simp add: usb_raw_ep_write_def usb_raw_ep_read_def perror_def EXIT_FAILURE_def)

section \<open>The names handed to the kernel by usb_raw_init\<close>

lemma c_string_no_nul: "CHR 0x00 \<notin> set (c_string s)"
  unfolding c_string_def by (auto dest: set_takeWhileD)

lemma c_string_terminated: "c_string (c_string s @ CHR 0x00 # rest) = c_string s"
proof -
  have "\<forall>c \<in> set (c_string s). c \<noteq> CHR 0x00"
    using c_string_no_nul [of s] by auto
  then have "takeWhile (\<lambda>c. c \<noteq> CHR 0x00) (c_string s @ CHR 0x00 # rest) = c_string s"
    by (simp add: takeWhile_append2)
  then show ?thesis by (simp only: c_string_def [of "c_string s @ CHR 0x00 # rest"])
qed

lemma array_after_strcpy:
  assumes "length (c_string src) < cap"
  shows "map (\<lambda>i. if i < length (c_string src) then c_string src ! i
                  else if i = length (c_string src) then CHR 0x00 else dst i) [0..<cap] =
         c_string src @ CHR 0x00 # map dst [Suc (length (c_string src))..<cap]"
proof -
  let ?s = "c_string src"
  let ?f = "\<lambda>i. if i < length ?s then ?s ! i else if i = length ?s then CHR 0x00 else dst i"
  have split: "[0..<cap] = [0..<length ?s] @ length ?s # [Suc (length ?s)..<cap]"
    using assms by (metis le_add1 less_imp_add_positive upt_add_eq_append upt_conv_Cons plus_nat.add_0)
  have a: "map ?f [0..<length ?s] = ?s"
    by (rule nth_equalityI) simp_all
  have b: "map ?f [Suc (length ?s)..<cap] = map dst [Suc (length ?s)..<cap]"
    by simp
  show ?thesis
    by (simp only: split map_append list.map a b) simp
qed

lemma strcpy_fits:
  "length (c_string src) < cap \<Longrightarrow>
   \<exists>buf. strcpy cap dst src = Inr buf \<and> array_string cap buf = c_string src"
  by (simp add: strcpy_def Let_def array_string_def array_after_strcpy c_string_terminated)

lemma strcpy_overflow:
  "\<not> length (c_string src) < cap \<Longrightarrow> strcpy cap dst src = Inl Write_past_buffer"
  by (simp add: strcpy_def Let_def)

lemma speed_fits_byte: "uint (word_of_int (usb_device_speed_value sp) :: u8) = usb_device_speed_value sp"
  by (cases sp) simp_all

lemma usb_raw_init_fill_fits:
  assumes "length (c_string driver) < UDC_NAME_LENGTH_MAX"
    and "length (c_string device) < UDC_NAME_LENGTH_MAX"
  shows "\<exists>a. usb_raw_init_fill sp driver device arg = Inr a \<and>
    array_string UDC_NAME_LENGTH_MAX (driver_name a) = c_string driver \<and>
    array_string UDC_NAME_LENGTH_MAX (device_name a) = c_string device \<and>
    uint (speed a) = usb_device_speed_value sp"
proof -
  from assms(1) obtain dn where dn: "strcpy UDC_NAME_LENGTH_MAX (driver_name arg) driver = Inr dn"
    "array_string UDC_NAME_LENGTH_MAX dn = c_string driver"
    using strcpy_fits by blast
  from assms(2) obtain dv where dv: "strcpy UDC_NAME_LENGTH_MAX (device_name arg) device = Inr dv"
    "array_string UDC_NAME_LENGTH_MAX dv = c_string device"
    using strcpy_fits by blast
  show ?thesis
    by (simp add: usb_raw_init_fill_def dn dv speed_fits_byte)
qed

lemma usb_raw_init_fill_overflow:
  assumes "\<not> (length (c_string driver) < UDC_NAME_LENGTH_MAX \<and>
              length (c_string device) < UDC_NAME_LENGTH_MAX)"
  shows "usb_raw_init_fill sp driver device arg = Inl Write_past_buffer"
proof (cases "length (c_string driver) < UDC_NAME_LENGTH_MAX")
  case True
  with assms have "\<not> length (c_string device) < UDC_NAME_LENGTH_MAX" by simp
  then have dv: "strcpy UDC_NAME_LENGTH_MAX (device_name arg) device = Inl Write_past_buffer"
    by (rule strcpy_overflow)
  from True obtain dn where "strcpy UDC_NAME_LENGTH_MAX (driver_name arg) driver = Inr dn"
    using strcpy_fits by blast
  with dv show ?thesis
    by (simp add: usb_raw_init_fill_def)
next
  case False
  then have "strcpy UDC_NAME_LENGTH_MAX (driver_name arg) driver = Inl Write_past_buffer"
    by (rule strcpy_overflow)
  then show ?thesis
    by (simp add: usb_raw_init_fill_def)
qed

text \<open>
  C10. \<open>usb_raw_init\<close> copies the two names with \<open>strcpy\<close> into arrays of
  \<open>UDC_NAME_LENGTH_MAX = 128\<close> bytes and checks no length. When each name with
  its terminating NUL fits in 128 bytes, the structure that reaches the kernel with
  the request \<open>USB_RAW_IOCTL_INIT\<close> holds exactly the driver name, the device name
  and the speed that were given, and the result of that one call decides how the
  wrapper ends. When one of the names does not fit, the copy writes past the end of
  its array: the behaviour is undefined and no kernel call is described.
\<close>

theorem usb_raw_init_names:
  "(length (c_string driver) < UDC_NAME_LENGTH_MAX \<and>
    length (c_string device) < UDC_NAME_LENGTH_MAX \<longrightarrow>
      (\<exists>a. usb_raw_init_fill sp driver device arg = Inr a \<and>
           array_string UDC_NAME_LENGTH_MAX (driver_name a) = c_string driver \<and>
           array_string UDC_NAME_LENGTH_MAX (device_name a) = c_string device \<and>
           uint (speed a) = usb_device_speed_value sp \<and>
           fatal_on_failure ''ioctl(USB_RAW_IOCTL_INIT)''
             (sys_ioctl k (world st) fd USB_RAW_IOCTL_INIT (Ioctl_init a)) (\<lambda>rv. ()) st
             (usb_raw_init k fd sp driver device arg st))) \<and>
   (\<not> (length (c_string driver) < UDC_NAME_LENGTH_MAX \<and>
       length (c_string device) < UDC_NAME_LENGTH_MAX) \<longrightarrow>
      usb_raw_init k fd sp driver device arg st = (Undefined Write_past_buffer, st)) \<and>
   UDC_NAME_LENGTH_MAX = 128"
proof (intro conjI impI)
  assume "length (c_string driver) < UDC_NAME_LENGTH_MAX \<and>
    length (c_string device) < UDC_NAME_LENGTH_MAX"
  then obtain a where a: "usb_raw_init_fill sp driver device arg = Inr a"
    "array_string UDC_NAME_LENGTH_MAX (driver_name a) = c_string driver"
    "array_string UDC_NAME_LENGTH_MAX (device_name a) = c_string device"
    "uint (speed a) = usb_device_speed_value sp"
    using usb_raw_init_fill_fits [of driver device sp arg] by blast
  from a(1) have "fatal_on_failure ''ioctl(USB_RAW_IOCTL_INIT)''
      (sys_ioctl k (world st) fd USB_RAW_IOCTL_INIT (Ioctl_init a)) (\<lambda>rv. ()) st
      (usb_raw_init k fd sp driver device arg st)"
    by (rule usb_raw_init_fatal)
  with a show "\<exists>a. usb_raw_init_fill sp driver device arg = Inr a \<and>
      array_string UDC_NAME_LENGTH_MAX (driver_name a) = c_string driver \<and>
      array_string UDC_NAME_LENGTH_MAX (device_name a) = c_string device \<and>
      uint (speed a) = usb_device_speed_value sp \<and>
      fatal_on_failure ''ioctl(USB_RAW_IOCTL_INIT)''
        (sys_ioctl k (world st) fd USB_RAW_IOCTL_INIT (Ioctl_init a)) (\<lambda>rv. ()) st
        (usb_raw_init k fd sp driver device arg st)"
    by blast
next
  assume "\<not> (length (c_string driver) < UDC_NAME_LENGTH_MAX \<and>
    length (c_string device) < UDC_NAME_LENGTH_MAX)"
  then have "usb_raw_init_fill sp driver device arg = Inl Write_past_buffer"
    by (rule usb_raw_init_fill_overflow)
  then show "usb_raw_init k fd sp driver device arg st = (Undefined Write_past_buffer, st)"
    by (simp add: usb_raw_init_def)
next
  show "UDC_NAME_LENGTH_MAX = 128"
    by (simp add: UDC_NAME_LENGTH_MAX_def)
qed

theorem usb_raw_init_names_witness:
  "(length (c_string ''dummy_udc'') < UDC_NAME_LENGTH_MAX \<and>
    length (c_string ''dummy_udc.0'') < UDC_NAME_LENGTH_MAX \<and>
    (\<exists>a. usb_raw_init_fill USB_SPEED_HIGH ''dummy_udc'' ''dummy_udc.0''
            \<lparr>driver_name = \<lambda>i. CHR ''x'', device_name = \<lambda>i. CHR ''y'', speed = 0xFF\<rparr> = Inr a \<and>
         array_string UDC_NAME_LENGTH_MAX (driver_name a) = ''dummy_udc'' \<and>
         array_string UDC_NAME_LENGTH_MAX (device_name a) = ''dummy_udc.0'' \<and>
         uint (speed a) = 3)) \<and>
   (\<not> length (c_string (replicate 128 (CHR ''a''))) < UDC_NAME_LENGTH_MAX \<and>
    usb_raw_init \<lparr>sys_open = \<lambda>w p f. (3, Suc w), sys_ioctl = \<lambda>w fd r a. (0, Suc w)\<rparr> 3
      USB_SPEED_HIGH (replicate 128 (CHR ''a'')) ''dummy_udc.0''
      \<lparr>driver_name = \<lambda>i. CHR ''x'', device_name = \<lambda>i. CHR ''y'', speed = 0xFF\<rparr>
      \<lparr>world = 0, stderr = []\<rparr> =
      (Undefined Write_past_buffer, \<lparr>world = 0, stderr = []\<rparr>))"
proof -
  let ?k = "\<lparr>sys_open = \<lambda>(w :: nat) (p :: string) (f :: open_flags). (3 :: int, Suc w),
      sys_ioctl = \<lambda>(w :: nat) (fd :: int) (r :: ioctl_request) (a :: ioctl_arg). (0 :: int, Suc w)\<rparr>"
  let ?st = "\<lparr>world = 0 :: nat, stderr = []\<rparr>"
  let ?arg = "\<lparr>driver_name = \<lambda>i. CHR ''x'', device_name = \<lambda>i. CHR ''y'', speed = 0xFF\<rparr>"
  have s: "c_string ''dummy_udc'' = ''dummy_udc''" "c_string ''dummy_udc.0'' = ''dummy_udc.0''"
    "c_string (replicate 128 (CHR ''a'')) = replicate 128 (CHR ''a'')"
    by (simp_all add: c_string_def)
  have n: "UDC_NAME_LENGTH_MAX = 128"
    by (simp add: UDC_NAME_LENGTH_MAX_def)
  from usb_raw_init_names [where k = ?k and st = ?st and fd = 3 and sp = USB_SPEED_HIGH
      and driver = "''dummy_udc''" and device = "''dummy_udc.0''" and arg = ?arg]
  have 1: "\<exists>a. usb_raw_init_fill USB_SPEED_HIGH ''dummy_udc'' ''dummy_udc.0'' ?arg = Inr a \<and>
         array_string UDC_NAME_LENGTH_MAX (driver_name a) = ''dummy_udc'' \<and>
         array_string UDC_NAME_LENGTH_MAX (device_name a) = ''dummy_udc.0'' \<and>
         uint (speed a) = 3"
    by (simp only: s n) auto
  from usb_raw_init_names [where k = ?k and st = ?st and fd = 3 and sp = USB_SPEED_HIGH
      and driver = "replicate 128 (CHR ''a'')" and device = "''dummy_udc.0''" and arg = ?arg]
  have 2: "usb_raw_init ?k 3 USB_SPEED_HIGH (replicate 128 (CHR ''a'')) ''dummy_udc.0'' ?arg ?st =
      (Undefined Write_past_buffer, ?st)"
    by (simp add: s n)
  from 1 2 show ?thesis
    by (simp add: s n)
qed

end
